theory Spec2Isabelle
  imports Complex_Main "HOL-Library.Word"
begin

section \<open>JavaScript values\<close>

subsection \<open>Strings\<close>

text \<open>
  A JavaScript string is a sequence of UTF-16 code units; \<open>length\<close>, \<open>substring\<close>,
  \<open>slice\<close> and the regular expressions of the source (none has the \<open>u\<close> flag) all count
  and match code units.
\<close>

type_synonym code_unit = "16 word"
type_synonym jsstring = "code_unit list"

definition cu :: "char \<Rightarrow> code_unit" where
  "cu c = of_nat (of_char c)"

definition lit :: "string \<Rightarrow> jsstring" where
  "lit s = map cu s"

definition btw :: "code_unit \<Rightarrow> code_unit \<Rightarrow> code_unit \<Rightarrow> bool" where
  "btw lo hi c \<longleftrightarrow> lo \<le> c \<and> c \<le> hi"

text \<open>\<open>\s\<close> of a JavaScript regular expression, and the characters \<open>trim()\<close> strips.\<close>

definition is_space :: "code_unit \<Rightarrow> bool" where
  "is_space c \<longleftrightarrow>
     btw 0x09 0x0D c \<or> c = 0x20 \<or> c = 0xA0 \<or> c = 0x1680 \<or> btw 0x2000 0x200A c \<or>
     c = 0x2028 \<or> c = 0x2029 \<or> c = 0x202F \<or> c = 0x205F \<or> c = 0x3000 \<or> c = 0xFEFF"

definition is_digit :: "code_unit \<Rightarrow> bool" where
  "is_digit c \<longleftrightarrow> btw 0x30 0x39 c"

definition is_alpha :: "code_unit \<Rightarrow> bool" where
  "is_alpha c \<longleftrightarrow> btw 0x41 0x5A c \<or> btw 0x61 0x7A c"

text \<open>\<open>\w\<close>: \<open>[A-Za-z0-9_]\<close>.\<close>

definition is_word :: "code_unit \<Rightarrow> bool" where
  "is_word c \<longleftrightarrow> is_alpha c \<or> is_digit c \<or> c = 0x5F"

definition trim :: "jsstring \<Rightarrow> jsstring" where
  "trim s = rev (dropWhile is_space (rev (dropWhile is_space s)))"

text \<open>Decimal rendering of a non-negative integer inside a template literal.\<close>

fun show_nat :: "nat \<Rightarrow> jsstring" where
  "show_nat n = (if n < 10 then [0x30 + of_nat n]
                 else show_nat (n div 10) @ [0x30 + of_nat (n mod 10)])"

subsection \<open>Numbers\<close>

text \<open>
  A JavaScript number is a double. Every finite double is a rational, and the source only
  compares numbers and takes their minimum and maximum, which is exact, so the finite
  values are modelled as rationals beside the two infinities and NaN.
\<close>

datatype jsnum = Fin rat | PInf | NInf | NaN

fun js_le :: "jsnum \<Rightarrow> jsnum \<Rightarrow> bool" where
  "js_le NaN _ = False"
| "js_le _ NaN = False"
| "js_le NInf _ = True"
| "js_le _ PInf = True"
| "js_le (Fin a) (Fin b) = (a \<le> b)"
| "js_le _ _ = False"

definition js_ge :: "jsnum \<Rightarrow> jsnum \<Rightarrow> bool" where
  "js_ge a b = js_le b a"

text \<open>\<open>Math.max\<close> and \<open>Math.min\<close> of two numbers: NaN if either is NaN.\<close>

fun Math_max :: "jsnum \<Rightarrow> jsnum \<Rightarrow> jsnum" where
  "Math_max NaN _ = NaN"
| "Math_max _ NaN = NaN"
| "Math_max a b = (if js_le a b then b else a)"

fun Math_min :: "jsnum \<Rightarrow> jsnum \<Rightarrow> jsnum" where
  "Math_min NaN _ = NaN"
| "Math_min _ NaN = NaN"
| "Math_min a b = (if js_le a b then a else b)"

fun is_integer :: "jsnum \<Rightarrow> bool" where
  "is_integer (Fin q) = (q = of_int \<lfloor>q\<rfloor>)"
| "is_integer _ = False"

subsection \<open>JSON values\<close>

text \<open>
  What \<open>JSON.parse\<close> returns and what a request body holds. An object is an association
  list from property names to values; \<open>undefined\<close> (an absent property, a missing argument)
  is \<open>None\<close> of \<open>json option\<close>.
\<close>

datatype json =
    JNull
  | JBool bool
  | JNum jsnum
  | JStr jsstring
  | JArr "json list"
  | JObj "(jsstring \<times> json) list"

fun truthy :: "json option \<Rightarrow> bool" where
  "truthy None = False"
| "truthy (Some JNull) = False"
| "truthy (Some (JBool b)) = b"
| "truthy (Some (JNum n)) = (n \<noteq> Fin 0 \<and> n \<noteq> NaN)"
| "truthy (Some (JStr s)) = (s \<noteq> [])"
| "truthy (Some (JArr _)) = True"
| "truthy (Some (JObj _)) = True"

text \<open>\<open>v || d\<close> for a default \<open>d\<close> that is a value.\<close>

definition js_or :: "json option \<Rightarrow> json \<Rightarrow> json" where
  "js_or v d = (if truthy v then the v else d)"

text \<open>
  Reading a property of a value other than \<open>null\<close> and \<open>undefined\<close>. None of the property
  names the source reads is defined on the prototypes of strings, numbers, booleans or
  arrays, so on those the result is \<open>undefined\<close>.
\<close>

fun get_prop :: "json \<Rightarrow> string \<Rightarrow> json option" where
  "get_prop (JObj kvs) k = map_of kvs (lit k)"
| "get_prop _ k = None"

section \<open>Text sanitizer\<close>

subsection \<open>Regular expressions\<close>

text \<open>
  The fragment of JavaScript regular expressions the sanitizer uses: character classes,
  greedy bounded or unbounded repetition of a class, greedy optional groups, sequences
  and the word boundary \<open>\b\<close>. A position is the code unit before it (if any) and the rest
  of the input.
\<close>

datatype re =
    Eps
  | Cls "code_unit \<Rightarrow> bool"
  | Rep "code_unit \<Rightarrow> bool" nat "nat option"
  | Opt re
  | Seq re re
  | WordB

type_synonym pos = "code_unit option \<times> jsstring"

fun advance :: "pos \<Rightarrow> nat \<Rightarrow> pos" where
  "advance (p, s) 0 = (p, s)"
| "advance (p, []) (Suc j) = (p, [])"
| "advance (p, c # cs) (Suc j) = advance (Some c, cs) j"

definition at_boundary :: "pos \<Rightarrow> bool" where
  "at_boundary x = (case x of (p, s) \<Rightarrow>
     (case p of None \<Rightarrow> False | Some c \<Rightarrow> is_word c) \<noteq>
     (case s of [] \<Rightarrow> False | c # _ \<Rightarrow> is_word c))"

text \<open>
  All the positions at which a match of the expression starting at the given position can
  end, in the order in which the backtracking matcher tries them; the head is the match
  that is taken.
\<close>

fun ends :: "re \<Rightarrow> pos \<Rightarrow> pos list" where
  "ends Eps x = [x]"
| "ends (Cls P) (p, s) = (case s of [] \<Rightarrow> [] | c # cs \<Rightarrow> if P c then [(Some c, cs)] else [])"
| "ends (Rep P lo hi) (p, s) =
     (let k = length (takeWhile P s);
          k' = (case hi of None \<Rightarrow> k | Some h \<Rightarrow> min h k)
      in map (advance (p, s)) (rev [lo ..< Suc k']))"
| "ends (Opt r) x = ends r x @ [x]"
| "ends (Seq a b) x = concat (map (ends b) (ends a x))"
| "ends WordB x = (if at_boundary x then [x] else [])"

definition seqs :: "re list \<Rightarrow> re" where
  "seqs rs = foldr Seq rs Eps"

text \<open>
  \<open>s.replace(/r/g, repl)\<close> for a replacement text without \<open>$\<close>: scan from the left, replace
  the match taken at the first position that has one, continue after it. After an empty
  match the scan copies one code unit and moves on.
\<close>

function replace_all :: "re \<Rightarrow> jsstring \<Rightarrow> pos \<Rightarrow> jsstring" where
  "replace_all r repl (p, s) =
     (case ends r (p, s) of
        [] \<Rightarrow> (case s of [] \<Rightarrow> [] | c # cs \<Rightarrow> c # replace_all r repl (Some c, cs))
      | x # _ \<Rightarrow>
          if length (snd x) < length s then repl @ replace_all r repl x
          else (case s of [] \<Rightarrow> repl | c # cs \<Rightarrow> repl @ c # replace_all r repl (Some c, cs)))"
  by pat_completeness auto
termination
  by (relation "measure (\<lambda>(r, repl, x). length (snd x))") auto

text \<open>Replacing every maximal run of code units of a class: \<open>s.replace(/[class]+/g, repl)\<close>.\<close>

function replace_runs :: "(code_unit \<Rightarrow> bool) \<Rightarrow> jsstring \<Rightarrow> jsstring \<Rightarrow> jsstring" where
  "replace_runs P repl [] = []"
| "replace_runs P repl (c # cs) =
     (if P c then repl @ replace_runs P repl (dropWhile P cs)
      else c # replace_runs P repl cs)"
  by pat_completeness auto
termination
  by (relation "measure (\<lambda>(P, repl, s). length s)") (auto simp: length_dropWhile_le less_Suc_eq_le)

subsection \<open>The patterns of the source\<close>

definition one :: "char \<Rightarrow> code_unit \<Rightarrow> bool" where
  "one ch c \<longleftrightarrow> c = cu ch"

definition any_of :: "string \<Rightarrow> code_unit \<Rightarrow> bool" where
  "any_of chs c \<longleftrightarrow> c \<in> set (lit chs)"

text \<open>\<^verbatim>\<open>/\b[A-Za-z0-9._%+-]+@[A-Za-z0-9.-]+\.[A-Z|a-z]{2,}\b/g\<close>\<close>

definition email_re :: re where
  "email_re = seqs
     [WordB,
      Rep (\<lambda>c. is_alpha c \<or> is_digit c \<or> any_of ''._%+-'' c) 1 None,
      Cls (one CHR ''@''),
      Rep (\<lambda>c. is_alpha c \<or> is_digit c \<or> any_of ''.-'' c) 1 None,
      Cls (one CHR ''.''),
      Rep (\<lambda>c. is_alpha c \<or> one CHR ''|'' c) 2 None,
      WordB]"

text \<open>\<^verbatim>\<open>/\b(?:\+?1[-.\s]?)?\(?[0-9]{3}\)?[-.\s]?[0-9]{3}[-.\s]?[0-9]{4}\b/g\<close>\<close>

definition sep :: "code_unit \<Rightarrow> bool" where
  "sep c \<longleftrightarrow> any_of ''-.'' c \<or> is_space c"

definition phone_re :: re where
  "phone_re = seqs
     [WordB,
      Opt (seqs [Opt (Cls (one CHR ''+'')), Cls (one CHR ''1''), Opt (Cls sep)]),
      Opt (Cls (one CHR ''('')),
      Rep is_digit 3 (Some 3),
      Opt (Cls (one CHR '')'')),
      Opt (Cls sep),
      Rep is_digit 3 (Some 3),
      Opt (Cls sep),
      Rep is_digit 4 (Some 4),
      WordB]"

text \<open>\<^verbatim>\<open>/\b[0-9]{4}[\s-]?[0-9]{4}[\s-]?[0-9]{4}[\s-]?[0-9]{4}\b/g\<close>\<close>

definition card_sep :: "code_unit \<Rightarrow> bool" where
  "card_sep c \<longleftrightarrow> is_space c \<or> one CHR ''-'' c"

definition card_re :: re where
  "card_re = seqs
     [WordB,
      Rep is_digit 4 (Some 4), Opt (Cls card_sep),
      Rep is_digit 4 (Some 4), Opt (Cls card_sep),
      Rep is_digit 4 (Some 4), Opt (Cls card_sep),
      Rep is_digit 4 (Some 4),
      WordB]"

text \<open>\<open>[^\x00-\x7F]\<close> and \<open>[\u0000-\u001F\u007F]\<close>.\<close>

definition non_ascii :: "code_unit \<Rightarrow> bool" where
  "non_ascii c \<longleftrightarrow> \<not> c \<le> 0x7F"

definition is_control :: "code_unit \<Rightarrow> bool" where
  "is_control c \<longleftrightarrow> c \<le> 0x1F \<or> c = 0x7F"

subsection \<open>sanitizeText and validateTextLength\<close>

text \<open>
  The argument is any value: the function itself tests \<open>!text || typeof text !== "string"\<close>.
\<close>

definition sanitizeText :: "json option \<Rightarrow> jsstring" where
  "sanitizeText text =
     (case text of
        Some (JStr s) \<Rightarrow>
          if s = [] then []
          else
            let s1 = replace_all email_re (lit ''[email]'') (None, s);
                s2 = replace_all phone_re (lit ''[phone]'') (None, s1);
                s3 = replace_all card_re (lit ''[card]'') (None, s2);
                s4 = trim s3;
                s5 = replace_runs is_space (lit '' '') s4;
                s6 = replace_runs non_ascii (lit '' '') s5;
                s7 = filter (\<lambda>c. \<not> is_control c) s6
            in take 6000 s7
      | _ \<Rightarrow> [])"

text \<open>The two bounds are optional arguments with defaults 10 and 50000.\<close>

definition validateTextLength :: "json option \<Rightarrow> jsnum option \<Rightarrow> jsnum option \<Rightarrow> bool" where
  "validateTextLength text minLength maxLength =
     (let mn = (case minLength of None \<Rightarrow> Fin 10 | Some m \<Rightarrow> m);
          mx = (case maxLength of None \<Rightarrow> Fin 50000 | Some m \<Rightarrow> m);
          sanitized = sanitizeText text;
          n = Fin (of_nat (length sanitized))
      in js_ge n mn \<and> js_le n mx)"

section \<open>Completion client\<close>

subsection \<open>Requests, the environment and the world\<close>

text \<open>
  The user message of every request is a template literal: a fixed instruction text, which
  is identified here by its task, with the texts interpolated into it, in the order of the
  template.
\<close>

datatype prompt =
    JD_extraction jsstring
  | Resume_extraction jsstring
  | Metadata_extraction jsstring
  | Match_analysis jsstring jsstring jsstring
  | Tailoring jsstring jsstring

record completion =
  system_content :: jsstring
  user_content :: prompt
  model :: jsstring
  temperature :: rat
  maxTokens :: "nat option"

record request =
  authorization :: jsstring
  body_system :: jsstring
  body_user :: prompt
  body_model :: jsstring
  body_temperature :: rat
  body_max_tokens :: "nat option"
  timeout_ms :: nat

text \<open>
  What one \<open>axios.post\<close> followed by reading \<open>response.data.choices[0]?.message?.content\<close>
  gives: the content (absent when the optional chain gives \<open>undefined\<close>), or an exception
  with its message and its \<open>response?.status\<close>.
\<close>

datatype http_result = Responded "jsstring option" | Threw "nat option" jsstring

text \<open>
  The environment is everything the code reads but does not define: the process
  configuration, the upstream endpoint (its answer to the n-th request), and the runtime's
  \<open>JSON.parse\<close> (with the message of its SyntaxError), \<open>JSON.stringify\<close> (plain and with
  indentation 2), number conversion of strings, arrays and objects, and the message of the
  TypeError raised by reading a property of \<open>null\<close> or \<open>undefined\<close>.
\<close>

record env =
  OPENAI_API_KEY :: "jsstring option"
  axios_post :: "nat \<Rightarrow> request \<Rightarrow> http_result"
  JSON_parse :: "jsstring \<Rightarrow> jsstring + json"
  JSON_stringify :: "json \<Rightarrow> jsstring"
  JSON_stringify_indent :: "json \<Rightarrow> jsstring"
  ToNumber_object :: "json \<Rightarrow> jsnum"
  TypeError_message :: "string \<Rightarrow> jsstring"

text \<open>
  The effects, in the order in which they happen: a request sent to the endpoint, a delay
  awaited. The world is the trace of the effects so far.
\<close>

datatype event = Sent request | Slept nat

type_synonym world = "event list"

text \<open>The requests of a trace and its delays, each in order.\<close>

fun requests :: "world \<Rightarrow> request list" where
  "requests [] = []"
| "requests (Sent q # w) = q # requests w"
| "requests (Slept d # w) = requests w"

fun sleeps :: "world \<Rightarrow> nat list" where
  "sleeps [] = []"
| "sleeps (Sent q # w) = sleeps w"
| "sleeps (Slept d # w) = d # sleeps w"

subsection \<open>Exceptions\<close>

record RetryableError =
  name :: jsstring
  message :: jsstring
  isRetryable :: bool
  statusCode :: "nat option"

text \<open>
  A thrown value is an instance of \<open>Error\<close>, with its message and its \<open>response?.status\<close>,
  or the plain object that \<open>createRetryableError\<close> builds, which is not one.
\<close>

datatype exn = JsError jsstring "nat option" | PlainObj RetryableError

fun exn_message :: "exn \<Rightarrow> jsstring" where
  "exn_message (JsError m _) = m"
| "exn_message (PlainObj e) = message e"

fun exn_status :: "exn \<Rightarrow> nat option" where
  "exn_status (JsError _ s) = s"
| "exn_status (PlainObj _) = None"

text \<open>\<open>new Error(msg)\<close>.\<close>

definition new_Error :: "jsstring \<Rightarrow> exn" where
  "new_Error msg = JsError msg None"

text \<open>\<open>error instanceof Error ? error.message : "Unknown error"\<close>.\<close>

fun error_text :: "exn \<Rightarrow> jsstring" where
  "error_text (JsError m _) = m"
| "error_text (PlainObj _) = lit ''Unknown error''"

subsection \<open>Retry policy\<close>

definition MAX_RETRIES :: nat where
  "MAX_RETRIES = 3"

definition RETRY_DELAY_MS :: nat where
  "RETRY_DELAY_MS = 1000"

definition isRetryableStatus :: "nat option \<Rightarrow> bool" where
  "isRetryableStatus status \<longleftrightarrow>
     status = Some 429 \<or> status = Some 500 \<or> status = Some 502 \<or> status = Some 503"

definition createRetryableError :: "exn \<Rightarrow> RetryableError" where
  "createRetryableError axiosError =
     (let status = exn_status axiosError
      in \<lparr> name = lit ''OpenAIError'',
           message = (if exn_message axiosError \<noteq> [] then exn_message axiosError
                      else lit ''OpenAI API request failed''),
           isRetryable = isRetryableStatus status,
           statusCode = status \<rparr>)"

text \<open>The function never returns: its value is what it throws.\<close>

definition handleNonRetryableError :: "RetryableError \<Rightarrow> exn" where
  "handleNonRetryableError error =
     (if statusCode error = Some 401 then new_Error (lit ''Invalid OpenAI API key'')
      else if statusCode error = Some 400 then new_Error (lit ''Invalid request to OpenAI API'')
      else PlainObj error)"

definition requestBody :: "jsstring \<Rightarrow> completion \<Rightarrow> request" where
  "requestBody apiKey c =
     \<lparr> authorization = lit ''Bearer '' @ apiKey,
       body_system = system_content c,
       body_user = user_content c,
       body_model = model c,
       body_temperature = temperature c,
       body_max_tokens = (case maxTokens c of None \<Rightarrow> None
                          | Some n \<Rightarrow> if n = 0 then None else Some n),
       timeout_ms = 60000 \<rparr>"

definition makeOpenAIRequest ::
  "env \<Rightarrow> jsstring \<Rightarrow> completion \<Rightarrow> world \<Rightarrow> (exn + jsstring) \<times> world" where
  "makeOpenAIRequest e apiKey c w =
     (let w' = w @ [Sent (requestBody apiKey c)]
      in case axios_post e (length (requests w)) (requestBody apiKey c) of
           Threw status msg \<Rightarrow> (Inl (JsError msg status), w')
         | Responded content \<Rightarrow>
             (case content of
                None \<Rightarrow> (Inl (new_Error (lit ''Empty response from OpenAI API'')), w')
              | Some s \<Rightarrow>
                  if s = [] then (Inl (new_Error (lit ''Empty response from OpenAI API'')), w')
                  else (Inr s, w')))"

text \<open>
  The \<open>for\<close> loop of \<open>callOpenAIChat\<close>, from the given attempt index, with the last error
  so far.
\<close>

function retry_loop ::
  "env \<Rightarrow> jsstring \<Rightarrow> completion \<Rightarrow> nat \<Rightarrow> RetryableError option \<Rightarrow> world
     \<Rightarrow> (exn + jsstring) \<times> world" where
  "retry_loop e apiKey c attempt lastError w =
     (if attempt < MAX_RETRIES then
        (case makeOpenAIRequest e apiKey c w of
           (Inr content, w1) \<Rightarrow> (Inr content, w1)
         | (Inl error, w1) \<Rightarrow>
             let lastError' = createRetryableError error
             in if \<not> isRetryable lastError' then (Inl (handleNonRetryableError lastError'), w1)
                else
                  let w2 = (if attempt < MAX_RETRIES - 1
                            then w1 @ [Slept (RETRY_DELAY_MS * 2 ^ attempt)]
                            else w1)
                  in retry_loop e apiKey c (attempt + 1) (Some lastError') w2)
      else
        (Inl (new_Error
               (lit ''OpenAI API call failed after '' @ show_nat MAX_RETRIES @
                lit '' attempts: '' @
                (case lastError of None \<Rightarrow> lit ''undefined'' | Some l \<Rightarrow> message l))), w))"
  by pat_completeness auto
termination
  by (relation "measure (\<lambda>(e, apiKey, c, attempt, lastError, w). MAX_RETRIES - attempt)") simp_all

declare retry_loop.simps [simp del]

definition callOpenAIChat :: "env \<Rightarrow> completion \<Rightarrow> world \<Rightarrow> (exn + jsstring) \<times> world" where
  "callOpenAIChat e c w =
     (case OPENAI_API_KEY e of
        None \<Rightarrow> (Inl (new_Error (lit ''OPENAI_API_KEY is not configured'')), w)
      | Some apiKey \<Rightarrow>
          if apiKey = [] then (Inl (new_Error (lit ''OPENAI_API_KEY is not configured'')), w)
          else retry_loop e apiKey c 0 None w)"

section \<open>Prompts, parsers and normalizers\<close>

subsection \<open>Helpers for the try blocks\<close>

text \<open>\<open>JSON.parse(response.trim())\<close>; the SyntaxError is an instance of \<open>Error\<close>.\<close>

definition parse_response :: "env \<Rightarrow> jsstring \<Rightarrow> exn + json" where
  "parse_response e response =
     (case JSON_parse e (trim response) of
        Inl msg \<Rightarrow> Inl (JsError msg None)
      | Inr v \<Rightarrow> Inr v)"

text \<open>
  The receiver of a property read \<open>v.k\<close>: reading a property of \<open>undefined\<close> or \<open>null\<close>
  throws a TypeError.
\<close>

definition receiver :: "env \<Rightarrow> json option \<Rightarrow> string \<Rightarrow> exn + json" where
  "receiver e v k =
     (case v of
        None \<Rightarrow> Inl (JsError (TypeError_message e k) None)
      | Some JNull \<Rightarrow> Inl (JsError (TypeError_message e k) None)
      | Some j \<Rightarrow> Inr j)"

text \<open>\<open>catch (error) { throw new Error(`prefix${error instanceof Error ? ...}`) }\<close>.\<close>

definition catch_rethrow :: "string \<Rightarrow> exn + 'a \<Rightarrow> exn + 'a" where
  "catch_rethrow prefix r =
     (case r of
        Inl error \<Rightarrow> Inl (new_Error (lit prefix @ error_text error))
      | Inr v \<Rightarrow> Inr v)"

text \<open>The conversion that \<open>Math.max\<close> applies to its argument.\<close>

definition ToNumber :: "env \<Rightarrow> json \<Rightarrow> jsnum" where
  "ToNumber e v =
     (case v of
        JNull \<Rightarrow> Fin 0
      | JBool b \<Rightarrow> Fin (if b then 1 else 0)
      | JNum n \<Rightarrow> n
      | _ \<Rightarrow> ToNumber_object e v)"

subsection \<open>Job description\<close>

record StructuredJD =
  title :: json
  company :: json
  location :: json
  employmentType :: json
  experienceLevel :: json
  educationRequirements :: json
  domain :: json
  responsibilities :: json
  mustHaveSkills :: json
  niceToHaveSkills :: json
  technologies :: json
  summary :: json

definition jd_completion :: "jsstring \<Rightarrow> completion" where
  "jd_completion sanitizedJD =
     \<lparr> system_content =
         lit ''You are a professional job description parser that outputs structured JSON.'',
       user_content = JD_extraction sanitizedJD,
       model = lit ''gpt-4o-mini'',
       temperature = 3 / 10,
       maxTokens = Some 1200 \<rparr>"

definition jd_body :: "env \<Rightarrow> jsstring \<Rightarrow> exn + StructuredJD" where
  "jd_body e response =
     (case parse_response e response of
        Inl x \<Rightarrow> Inl x
      | Inr parsed \<Rightarrow>
     (case receiver e (Some parsed) ''title'' of
        Inl x \<Rightarrow> Inl x
      | Inr jdData \<Rightarrow>
          Inr \<lparr> title = js_or (get_prop jdData ''title'') (JStr []),
                company = js_or (get_prop jdData ''company'') (JStr []),
                location = js_or (get_prop jdData ''location'') (JStr []),
                employmentType = js_or (get_prop jdData ''employmentType'') (JStr []),
                experienceLevel = js_or (get_prop jdData ''experienceLevel'') (JStr []),
                educationRequirements =
                  js_or (get_prop jdData ''educationRequirements'') (JArr []),
                domain = js_or (get_prop jdData ''domain'') (JStr []),
                responsibilities = js_or (get_prop jdData ''responsibilities'') (JArr []),
                mustHaveSkills = js_or (get_prop jdData ''mustHaveSkills'') (JArr []),
                niceToHaveSkills = js_or (get_prop jdData ''niceToHaveSkills'') (JArr []),
                technologies = js_or (get_prop jdData ''technologies'') (JArr []),
                summary = js_or (get_prop jdData ''summary'') (JStr []) \<rparr>))"

definition preProcessJD :: "env \<Rightarrow> jsstring \<Rightarrow> world \<Rightarrow> (exn + StructuredJD) \<times> world" where
  "preProcessJD e jd w =
     (let sanitizedJD = sanitizeText (Some (JStr (take 6000 jd)))
      in case callOpenAIChat e (jd_completion sanitizedJD) w of
           (r, w') \<Rightarrow>
             (catch_rethrow ''Failed to preprocess job description: ''
                (case r of Inl x \<Rightarrow> Inl x | Inr response \<Rightarrow> jd_body e response), w'))"

text \<open>The object that \<open>JSON.stringify\<close> sees for a structured job description.\<close>

definition StructuredJD_json :: "StructuredJD \<Rightarrow> json" where
  "StructuredJD_json j =
     JObj [(lit ''title'', title j), (lit ''company'', company j),
           (lit ''location'', location j), (lit ''employmentType'', employmentType j),
           (lit ''experienceLevel'', experienceLevel j),
           (lit ''educationRequirements'', educationRequirements j),
           (lit ''domain'', domain j), (lit ''responsibilities'', responsibilities j),
           (lit ''mustHaveSkills'', mustHaveSkills j),
           (lit ''niceToHaveSkills'', niceToHaveSkills j),
           (lit ''technologies'', technologies j), (lit ''summary'', summary j)]"

subsection \<open>Resume\<close>

text \<open>
  The structured resume is whatever \<open>JSON.parse\<close> returned, so it is a JSON value; the
  fallback is the object literal of the inner \<open>catch\<close>.
\<close>

definition resume_completion :: "jsstring \<Rightarrow> completion" where
  "resume_completion sanitizedResume =
     \<lparr> system_content = lit ''You extract structured JSON from resumes.'',
       user_content = Resume_extraction sanitizedResume,
       model = lit ''gpt-4o-mini'',
       temperature = 2 / 10,
       maxTokens = Some 1200 \<rparr>"

definition resume_fallback :: "jsstring \<Rightarrow> json" where
  "resume_fallback sanitizedResume =
     JObj [(lit ''name'', JStr []),
           (lit ''email'', JStr []),
           (lit ''phone'', JStr []),
           (lit ''location'', JStr []),
           (lit ''summary'', JStr (take 1000 sanitizedResume)),
           (lit ''skills'', JArr []),
           (lit ''education'', JArr []),
           (lit ''experience'', JArr []),
           (lit ''projects'', JArr []),
           (lit ''certifications'', JArr [])]"

definition preprocessResume :: "env \<Rightarrow> jsstring \<Rightarrow> world \<Rightarrow> (exn + json) \<times> world" where
  "preprocessResume e resumeText w =
     (let sanitizedResume = sanitizeText (Some (JStr (take 6000 resumeText)))
      in case callOpenAIChat e (resume_completion sanitizedResume) w of
           (r, w') \<Rightarrow>
             (catch_rethrow ''Failed to preprocess resume: ''
                (case r of
                   Inl x \<Rightarrow> Inl x
                 | Inr response \<Rightarrow>
                     (case parse_response e response of
                        Inr v \<Rightarrow> Inr v
                      | Inl _ \<Rightarrow> Inr (resume_fallback sanitizedResume))), w'))"

subsection \<open>Job metadata\<close>

record JobMetaDataResponse =
  companyLinkedInUrl :: json
  companyLogoUrl :: json
  companyName :: json
  jobTitle :: json
  jobLocation :: json
  salary :: json
  postedDate :: json
  applicationDeadline :: json
  jobType :: json
  remote :: json
  benefits :: json
  additionalInfo :: json

definition metadata_completion :: "jsstring \<Rightarrow> completion" where
  "metadata_completion sanitizedHtml =
     \<lparr> system_content =
         lit ''You are an HTML parser that extracts structured job metadata from HTML content.'',
       user_content = Metadata_extraction sanitizedHtml,
       model = lit ''gpt-4o-mini'',
       temperature = 2 / 10,
       maxTokens = Some 1000 \<rparr>"

definition empty_metadata :: JobMetaDataResponse where
  "empty_metadata =
     \<lparr> companyLinkedInUrl = JStr [], companyLogoUrl = JStr [], companyName = JStr [],
       jobTitle = JStr [], jobLocation = JStr [], salary = JStr [], postedDate = JStr [],
       applicationDeadline = JStr [], jobType = JStr [], remote = JStr [],
       benefits = JArr [], additionalInfo = JObj [] \<rparr>"

definition metadata_body :: "env \<Rightarrow> jsstring \<Rightarrow> exn + JobMetaDataResponse" where
  "metadata_body e response =
     (case parse_response e response of
        Inl x \<Rightarrow> Inl x
      | Inr p \<Rightarrow>
     (case receiver e (Some p) ''company'' of
        Inl x \<Rightarrow> Inl x
      | Inr parsed \<Rightarrow>
     (case receiver e (get_prop parsed ''company'') ''linkedinUrl'' of
        Inl x \<Rightarrow> Inl x
      | Inr parsed_company \<Rightarrow>
     (case receiver e (get_prop parsed ''job'') ''title'' of
        Inl x \<Rightarrow> Inl x
      | Inr parsed_job \<Rightarrow>
          Inr \<lparr> companyLinkedInUrl = js_or (get_prop parsed_company ''linkedinUrl'') (JStr []),
                companyLogoUrl = js_or (get_prop parsed_company ''logo'') (JStr []),
                companyName = js_or (get_prop parsed_company ''name'') (JStr []),
                jobTitle = js_or (get_prop parsed_job ''title'') (JStr []),
                jobLocation = js_or (get_prop parsed_job ''location'') (JStr []),
                salary = JStr [],
                postedDate = js_or (get_prop parsed_job ''posted'') (JStr []),
                applicationDeadline = JStr [],
                jobType = js_or (get_prop parsed_job ''employmentType'') (JStr []),
                remote = JStr [],
                benefits = JArr [],
                additionalInfo = JObj [] \<rparr>))))"

text \<open>The \<open>catch\<close> of this function returns the empty metadata instead of throwing.\<close>

definition parseJobMetadata ::
  "env \<Rightarrow> jsstring \<Rightarrow> world \<Rightarrow> (exn + JobMetaDataResponse) \<times> world" where
  "parseJobMetadata e metadataHtmlString w =
     (let sanitizedHtml = sanitizeText (Some (JStr (take 6000 metadataHtmlString)))
      in case callOpenAIChat e (metadata_completion sanitizedHtml) w of
           (r, w') \<Rightarrow>
             (case (case r of Inl x \<Rightarrow> Inl x | Inr response \<Rightarrow> metadata_body e response) of
                Inl error \<Rightarrow> (Inr empty_metadata, w')
              | Inr v \<Rightarrow> (Inr v, w')))"

subsection \<open>Match analysis\<close>

record BaseAnalysisResult =
  matchScore :: jsnum
  matchedSkills :: json
  missingSkills :: json
  suggestions :: json
  sampleBullets :: json
  analysisSummary :: json

definition match_completion :: "jsstring \<Rightarrow> jsstring \<Rightarrow> jsstring \<Rightarrow> completion" where
  "match_completion sanitizedJD structuredJDJson structuredResumeJson =
     \<lparr> system_content =
         lit ''You are a job resume matching expert that produces accurate, structured JSON analyses.'',
       user_content = Match_analysis sanitizedJD structuredJDJson structuredResumeJson,
       model = lit ''gpt-4o-mini'',
       temperature = 5 / 10,
       maxTokens = Some 1800 \<rparr>"

definition match_body :: "env \<Rightarrow> jsstring \<Rightarrow> exn + BaseAnalysisResult" where
  "match_body e response =
     (case parse_response e response of
        Inl x \<Rightarrow> Inl x
      | Inr parsed \<Rightarrow>
     (case receiver e (Some parsed) ''matchScore'' of
        Inl x \<Rightarrow> Inl x
      | Inr result \<Rightarrow>
          Inr \<lparr> matchScore =
                  Math_min (Fin 100)
                    (Math_max (Fin 0)
                       (ToNumber e (js_or (get_prop result ''matchScore'') (JNum (Fin 0))))),
                matchedSkills = js_or (get_prop result ''matchedSkills'') (JArr []),
                missingSkills = js_or (get_prop result ''missingSkills'') (JArr []),
                suggestions = js_or (get_prop result ''suggestions'') (JArr []),
                sampleBullets = js_or (get_prop result ''sampleBullets'') (JArr []),
                analysisSummary = js_or (get_prop result ''summary'') (JStr []) \<rparr>))"

definition callOpenAI ::
  "env \<Rightarrow> jsstring \<Rightarrow> jsstring \<Rightarrow> jsstring \<Rightarrow> world \<Rightarrow> (exn + BaseAnalysisResult) \<times> world" where
  "callOpenAI e jd structuredResumeJson structuredJDJson w =
     (let sanitizedJD = sanitizeText (Some (JStr (take 3000 jd)))
      in case callOpenAIChat e
                (match_completion sanitizedJD structuredJDJson structuredResumeJson) w of
           (r, w') \<Rightarrow>
             (catch_rethrow ''Failed to analyze job description and resume: ''
                (case r of Inl x \<Rightarrow> Inl x | Inr response \<Rightarrow> match_body e response), w'))"

subsection \<open>Tailored resume\<close>

record TailoredResume =
  tailoredSummary :: json
  tailoredSkills :: json
  tailoredExperience :: json
  tailoredProjects :: json
  coverLetterHighlights :: json

definition tailor_completion :: "jsstring \<Rightarrow> jsstring \<Rightarrow> completion" where
  "tailor_completion structuredJDJson structuredResumeJson =
     \<lparr> system_content =
         lit ''You are a professional resume writer that produces tailored, authentic resume content in JSON format.'',
       user_content = Tailoring structuredJDJson structuredResumeJson,
       model = lit ''gpt-4o-mini'',
       temperature = 7 / 10,
       maxTokens = Some 2000 \<rparr>"

definition tailor_body :: "env \<Rightarrow> jsstring \<Rightarrow> exn + TailoredResume" where
  "tailor_body e response =
     (case parse_response e response of
        Inl x \<Rightarrow> Inl x
      | Inr parsed \<Rightarrow>
     (case receiver e (Some parsed) ''tailoredSummary'' of
        Inl x \<Rightarrow> Inl x
      | Inr result \<Rightarrow>
          Inr \<lparr> tailoredSummary = js_or (get_prop result ''tailoredSummary'') (JStr []),
                tailoredSkills = js_or (get_prop result ''tailoredSkills'') (JArr []),
                tailoredExperience = js_or (get_prop result ''tailoredExperience'') (JArr []),
                tailoredProjects = js_or (get_prop result ''tailoredProjects'') (JArr []),
                coverLetterHighlights =
                  js_or (get_prop result ''coverLetterHighlights'') (JArr []) \<rparr>))"

definition generateTailoredResume ::
  "env \<Rightarrow> StructuredJD \<Rightarrow> json \<Rightarrow> world \<Rightarrow> (exn + TailoredResume) \<times> world" where
  "generateTailoredResume e structuredJD structuredResume w =
     (case callOpenAIChat e
             (tailor_completion (JSON_stringify_indent e (StructuredJD_json structuredJD))
                (JSON_stringify_indent e structuredResume)) w of
        (r, w') \<Rightarrow>
          (catch_rethrow ''Failed to generate tailored resume: ''
             (case r of Inl x \<Rightarrow> Inl x | Inr response \<Rightarrow> tailor_body e response), w'))"

section \<open>Orchestrator\<close>

record AnalyzeResponse = BaseAnalysisResult +
  structuredJD :: StructuredJD
  tailoredResume :: TailoredResume
  jobMetadata :: "JobMetaDataResponse option"

definition empty_tailored :: TailoredResume where
  "empty_tailored =
     \<lparr> tailoredSummary = JStr [], tailoredSkills = JArr [], tailoredExperience = JArr [],
       tailoredProjects = JArr [], coverLetterHighlights = JArr [] \<rparr>"

text \<open>
  The metadata step of \<open>analyze\<close>: skipped when the argument is absent, empty or blank;
  its own \<open>catch\<close> leaves the metadata undefined.
\<close>

definition metadata_step ::
  "env \<Rightarrow> jsstring option \<Rightarrow> world \<Rightarrow> JobMetaDataResponse option \<times> world" where
  "metadata_step e metadataHtmlString w =
     (case metadataHtmlString of
        None \<Rightarrow> (None, w)
      | Some html \<Rightarrow>
          if html \<noteq> [] \<and> length (trim html) > 0 then
            (case parseJobMetadata e html w of
               (Inr parsedMetadata, w') \<Rightarrow> (Some parsedMetadata, w')
             | (Inl error, w') \<Rightarrow> (None, w'))
          else (None, w))"

definition analyze ::
  "env \<Rightarrow> jsstring \<Rightarrow> json \<Rightarrow> jsstring option \<Rightarrow> world \<Rightarrow> (exn + AnalyzeResponse) \<times> world" where
  "analyze e jd structuredResume metadataHtmlString w =
     (case preProcessJD e jd w of
        (Inl error, w1) \<Rightarrow>
          (catch_rethrow ''Failed to analyze job description and resume: '' (Inl error), w1)
      | (Inr sJD, w1) \<Rightarrow>
     (case metadata_step e metadataHtmlString w1 of
        (parsedMetadata, w2) \<Rightarrow>
     (let structuredResumeJson = JSON_stringify e structuredResume;
          structuredJDJson = JSON_stringify e (StructuredJD_json sJD)
      in case callOpenAI e jd structuredResumeJson structuredJDJson w2 of
           (Inl error, w3) \<Rightarrow>
             (catch_rethrow ''Failed to analyze job description and resume: '' (Inl error), w3)
         | (Inr baseAnalysis, w3) \<Rightarrow>
     (let analysisResult =
            \<lparr> matchScore = matchScore baseAnalysis,
              matchedSkills = matchedSkills baseAnalysis,
              missingSkills = missingSkills baseAnalysis,
              suggestions = suggestions baseAnalysis,
              sampleBullets = sampleBullets baseAnalysis,
              analysisSummary = analysisSummary baseAnalysis,
              structuredJD = sJD,
              tailoredResume = empty_tailored,
              jobMetadata = parsedMetadata \<rparr>
      in case generateTailoredResume e sJD structuredResume w3 of
           (Inr tailored, w4) \<Rightarrow> (Inr (analysisResult\<lparr>tailoredResume := tailored\<rparr>), w4)
         | (Inl error, w4) \<Rightarrow> (Inr analysisResult, w4)))))"

subsection \<open>The handler that takes raw texts\<close>

text \<open>
  \<open>analyzeHandler\<close> of \<open>controllers/analyze.controller.ts\<close> reads \<open>jd\<close> and \<open>resume\<close> from
  the request body, answers 400 when one of them is missing or not a string, and otherwise
  passes both sanitized texts to \<open>analyze\<close>; an exception of \<open>analyze\<close> is thrown on.
\<close>

datatype reply = Bad_request jsstring | Ok_json AnalyzeResponse

fun is_string :: "json option \<Rightarrow> bool" where
  "is_string (Some (JStr _)) = True"
| "is_string _ = False"

definition analyzeHandler ::
  "env \<Rightarrow> json option \<Rightarrow> json option \<Rightarrow> world \<Rightarrow> (exn + reply) \<times> world" where
  "analyzeHandler e jd resume w =
     (if \<not> truthy jd \<or> \<not> is_string jd
        then (Inr (Bad_request (lit ''Job description is required'')), w)
      else if \<not> truthy resume \<or> \<not> is_string resume
        then (Inr (Bad_request (lit ''Resume is required'')), w)
      else
        let sanitizedJD = sanitizeText jd;
            sanitizedResume = sanitizeText resume
        in case analyze e sanitizedJD (JStr sanitizedResume) None w of
             (Inl error, w') \<Rightarrow> (Inl error, w')
           | (Inr analysisResult, w') \<Rightarrow> (Inr (Ok_json analysisResult), w'))"

section \<open>Example environments\<close>

text \<open>
  Concrete environments on which the properties below are exercised: a configured
  credential, an upstream that answers the n-th request as given, and runtime functions
  with fixed answers.
\<close>

definition mk_env :: "(nat \<Rightarrow> http_result) \<Rightarrow> (jsstring \<Rightarrow> jsstring + json) \<Rightarrow> env" where
  "mk_env post parse =
     \<lparr> OPENAI_API_KEY = Some (lit ''sk-test''),
       axios_post = (\<lambda>n r. post n),
       JSON_parse = parse,
       JSON_stringify = (\<lambda>j. lit ''<json>''),
       JSON_stringify_indent = (\<lambda>j. lit ''<json>''),
       ToNumber_object = (\<lambda>j. NaN),
       TypeError_message = (\<lambda>k. lit ''Cannot read properties of null'') \<rparr>"

definition no_json :: "jsstring \<Rightarrow> jsstring + json" where
  "no_json s = Inl (lit ''Unexpected token'')"

text \<open>An upstream that rejects every request with the given status.\<close>

definition failing_env :: "nat option \<Rightarrow> env" where
  "failing_env status = mk_env (\<lambda>n. Threw status (lit ''busy'')) no_json"

text \<open>An upstream that answers every request with no content.\<close>

definition silent_env :: env where
  "silent_env = mk_env (\<lambda>n. Responded None) no_json"

text \<open>A text with an address, a doubled space, two non-ASCII code units and a control character.\<close>

definition sample_text :: jsstring where
  "sample_text = lit ''Mail  bob@corp.io'' @ [0x00E9, 0x4E2D, 0x07] @ lit ''ok''"

text \<open>Answers of the model, with what \<open>JSON.parse\<close> makes of them.\<close>

definition quoted :: "string \<Rightarrow> jsstring" where
  "quoted s = [0x22] @ lit s @ [0x22]"

definition score_answer :: "string \<Rightarrow> jsstring" where
  "score_answer number = lit ''{'' @ quoted ''matchScore'' @ lit '':'' @ lit number @ lit ''}''"

definition score_json :: "rat \<Rightarrow> json" where
  "score_json q = JObj [(lit ''matchScore'', JNum (Fin q))]"

text \<open>A tailored resume whose only experience entry has \<open>bullets\<close> set to \<open>null\<close>.\<close>

definition nested_answer :: jsstring where
  "nested_answer =
     lit ''{'' @ quoted ''tailoredExperience'' @ lit '':[{'' @ quoted ''bullets'' @ lit '':null}]}''"

definition nested_json :: json where
  "nested_json = JObj [(lit ''tailoredExperience'', JArr [JObj [(lit ''bullets'', JNull)]])]"

text \<open>The empty object behind a byte order mark, which \<open>JSON.parse\<close> rejects.\<close>

definition bom_answer :: jsstring where
  "bom_answer = [0xFEFF] @ lit ''{}''"

definition demo_parse :: "jsstring \<Rightarrow> jsstring + json" where
  "demo_parse s =
     (if s = lit ''{}'' then Inr (JObj [])
      else if s = score_answer ''55.5'' then Inr (score_json (111 / 2))
      else if s = score_answer ''150'' then Inr (score_json 150)
      else if s = score_answer ''-10'' then Inr (score_json (- 10))
      else if s = nested_answer then Inr nested_json
      else Inl (lit ''Unexpected token''))"

text \<open>An upstream that answers every request with the given content.\<close>

definition answering_env :: "jsstring \<Rightarrow> env" where
  "answering_env content = mk_env (\<lambda>n. Responded (Some content)) demo_parse"

text \<open>
  An upstream that answers the requests in the order of a script, and fails without a
  status once the script is used up.
\<close>

definition scripted_env :: "http_result list \<Rightarrow> env" where
  "scripted_env script =
     mk_env (\<lambda>n. if n < length script then script ! n else Threw None (lit ''Network Error''))
       demo_parse"

text \<open>
  Scripts for the orchestrator: the metadata request fails on the network; the JD
  extraction, the match analysis or the tailoring fails.
\<close>

definition answers_c7 :: "http_result list" where
  "answers_c7 = [Responded (Some (lit ''{}'')), Threw None (lit ''Network Error''),
                 Responded (Some (score_answer ''150'')), Responded (Some (lit ''{}''))]"

definition answers_jd_fails :: "http_result list" where
  "answers_jd_fails = [Threw (Some 401) (lit ''Unauthorized'')]"

definition answers_match_fails :: "http_result list" where
  "answers_match_fails = [Responded (Some (lit ''{}'')), Threw (Some 400) (lit ''Bad Request'')]"

definition answers_tailor_fails :: "http_result list" where
  "answers_tailor_fails =
     [Responded (Some (lit ''{}'')), Responded (Some (score_answer ''150'')), Responded None]"

text \<open>Every request is answered with the empty object.\<close>

definition answers_all_empty :: "http_result list" where
  "answers_all_empty =
     [Responded (Some (lit ''{}'')), Responded (Some (lit ''{}'')), Responded (Some (lit ''{}''))]"

definition c0 :: completion where
  "c0 = jd_completion (lit ''dev'')"

definition w0 :: world where
  "w0 = []"

definition jd0 :: jsstring where
  "jd0 = lit ''Senior developer, Go and SQL''"

definition match0 :: completion where
  "match0 = match_completion (sanitizeText (Some (JStr (take 3000 jd0)))) (lit ''<json>'') (lit ''<json>'')"

definition default_jd :: StructuredJD where
  "default_jd =
     \<lparr> title = JStr [], company = JStr [], location = JStr [], employmentType = JStr [],
       experienceLevel = JStr [], educationRequirements = JArr [], domain = JStr [],
       responsibilities = JArr [], mustHaveSkills = JArr [], niceToHaveSkills = JArr [],
       technologies = JArr [], summary = JStr [] \<rparr>"

definition q0 :: request where
  "q0 = requestBody (lit ''sk-test'') c0"

section \<open>Literals\<close>

lemma unat_cu: "unat (cu c) = of_char c"
proof -
  have "(of_char c :: nat) < 256" by simp
  moreover have "(256 :: nat) < 2 ^ LENGTH(16)" by simp
  ultimately have "(of_char c :: nat) < 2 ^ LENGTH(16)" by (rule less_trans)
  then show ?thesis unfolding cu_def by (simp add: unat_of_nat)
qed

lemma cu_eq_iff [simp]: "cu a = cu b \<longleftrightarrow> a = b"
  by (metis unat_cu of_char_eq_iff)

lemma lit_eq_iff [simp]: "lit a = lit b \<longleftrightarrow> a = b"
  unfolding lit_def by (rule inj_map_eq_map) (simp add: inj_on_def)

section \<open>Properties of the sanitizer\<close>

lemma replace_runs_set: "set (replace_runs P repl s) \<subseteq> set repl \<union> {c \<in> set s. \<not> P c}"
  by (induction P repl s rule: replace_runs.induct) (auto dest: set_dropWhileD)

lemma lit_space: "lit '' '' = [0x20]"
  by (simp add: lit_def cu_def)

lemma sanitizeText_length: "length (sanitizeText v) \<le> 6000"
  by (simp add: sanitizeText_def Let_def split: option.splits json.splits)

lemma sanitizeText_chars:
  assumes "c \<in> set (sanitizeText v)"
  shows "\<not> is_control c \<and> \<not> non_ascii c"
proof -
  from assms obtain s where s: "v = Some (JStr s)" "s \<noteq> []"
    by (auto simp: sanitizeText_def split: option.splits json.splits if_splits)
  define s5 where "s5 = replace_runs is_space (lit '' '')
      (trim (replace_all card_re (lit ''[card]'') (None,
         replace_all phone_re (lit ''[phone]'') (None,
           replace_all email_re (lit ''[email]'') (None, s)))))"
  have "sanitizeText v =
        take 6000 (filter (\<lambda>c. \<not> is_control c) (replace_runs non_ascii (lit '' '') s5))"
    using s by (simp add: sanitizeText_def Let_def s5_def)
  with assms have "c \<in> set (filter (\<lambda>c. \<not> is_control c) (replace_runs non_ascii (lit '' '') s5))"
    by (auto dest: in_set_takeD)
  then have ctl: "\<not> is_control c" and "c \<in> set (replace_runs non_ascii (lit '' '') s5)"
    by simp_all
  then have "c = 0x20 \<or> \<not> non_ascii c"
    using replace_runs_set [of non_ascii "lit '' ''" s5] by (auto simp: lit_space)
  then have "\<not> non_ascii c"
    by (auto simp: non_ascii_def)
  with ctl show ?thesis by simp
qed

lemma sample_sanitized: "sanitizeText (Some (JStr sample_text)) = lit ''Mail [email] ok''"
  by code_simp

text \<open>
  C9. Whatever the input is, a string or not, the sanitized text has at most 6000 code
  units, and each of them is ASCII and is not a control character (not in 0x00..0x1F, not
  0x7F).
\<close>

theorem sanitizeText_output:
  "length (sanitizeText v) \<le> 6000 \<and>
   (\<forall>c \<in> set (sanitizeText v). \<not> (c \<le> 0x1F \<or> c = 0x7F) \<and> c \<le> 0x7F)"
  using sanitizeText_length [of v] sanitizeText_chars [of _ v]
  by (auto simp: is_control_def non_ascii_def)

theorem sanitizeText_output_witness:
  "sanitizeText (Some (JStr sample_text)) = lit ''Mail [email] ok'' \<and>
   length (sanitizeText (Some (JStr sample_text))) \<le> 6000 \<and>
   list_all (\<lambda>c. \<not> (c \<le> 0x1F \<or> c = 0x7F) \<and> c \<le> 0x7F) (sanitizeText (Some (JStr sample_text))) \<and>
   sanitizeText (Some (JNum (Fin 5))) = [] \<and> sanitizeText None = []"
  using sanitizeText_output [of "Some (JStr sample_text)"]
  by (simp add: sample_sanitized list_all_iff) (simp add: sanitizeText_def)

text \<open>
  C10. When the upper bound is at least 6000 (or is left to its default 50000), the length
  check accepts a text exactly when its sanitized length reaches the lower bound: the upper
  bound never rejects, since the sanitized text has at most 6000 code units.
\<close>

theorem validateTextLength_lower_bound_only:
  assumes "case maxLength of None \<Rightarrow> True | Some mx \<Rightarrow> js_ge mx (Fin 6000)"
  shows "validateTextLength v minLength maxLength =
         js_ge (Fin (of_nat (length (sanitizeText v))))
               (case minLength of None \<Rightarrow> Fin 10 | Some m \<Rightarrow> m)"
proof -
  let ?n = "Fin (of_nat (length (sanitizeText v)))"
  have le: "(of_nat (length (sanitizeText v)) :: rat) \<le> 6000"
    using sanitizeText_length [of v] by (metis of_nat_le_iff of_nat_numeral)
  have "js_le ?n (case maxLength of None \<Rightarrow> Fin 50000 | Some m \<Rightarrow> m)"
  proof (cases maxLength)
    case None
    with le show ?thesis by simp
  next
    case (Some mx)
    with assms have "js_le (Fin 6000) mx" by (simp add: js_ge_def)
    with le Some show ?thesis by (cases mx) auto
  qed
  then show ?thesis by (simp add: validateTextLength_def Let_def)
qed

theorem validateTextLength_lower_bound_only_witness:
  "js_ge (Fin 6000) (Fin 6000) \<and>
   validateTextLength (Some (JStr sample_text)) (Some (Fin 10)) (Some (Fin 6000)) \<and>
   \<not> validateTextLength (Some (JStr sample_text)) (Some (Fin 16)) None"
  using validateTextLength_lower_bound_only [of "Some (Fin 6000)" "Some (JStr sample_text)" "Some (Fin 10)"]
    validateTextLength_lower_bound_only [of None "Some (JStr sample_text)" "Some (Fin 16)"]
  by (simp add: sample_sanitized js_ge_def lit_def)

section \<open>Properties of the completion client\<close>

lemma requests_append [simp]: "requests (a @ b) = requests a @ requests b"
  by (induction a rule: requests.induct) simp_all

lemma sleeps_append [simp]: "sleeps (a @ b) = sleeps a @ sleeps b"
  by (induction a rule: sleeps.induct) simp_all

lemma makeOpenAIRequest_world:
  "snd (makeOpenAIRequest e k c w) = w @ [Sent (requestBody k c)]"
  by (simp add: makeOpenAIRequest_def Let_def split: http_result.splits option.splits)

lemma makeOpenAIRequest_Threw:
  "axios_post e (length (requests w)) (requestBody k c) = Threw s m \<Longrightarrow>
   makeOpenAIRequest e k c w = (Inl (JsError m s), w @ [Sent (requestBody k c)])"
  by (simp add: makeOpenAIRequest_def Let_def)

lemma makeOpenAIRequest_content:
  "axios_post e (length (requests w)) (requestBody k c) = Responded (Some s) \<Longrightarrow> s \<noteq> [] \<Longrightarrow>
   makeOpenAIRequest e k c w = (Inr s, w @ [Sent (requestBody k c)])"
  by (simp add: makeOpenAIRequest_def Let_def)

lemma makeOpenAIRequest_empty:
  "axios_post e (length (requests w)) (requestBody k c) = Responded x \<Longrightarrow> x = None \<or> x = Some [] \<Longrightarrow>
   makeOpenAIRequest e k c w =
     (Inl (new_Error (lit ''Empty response from OpenAI API'')),
      w @ [Sent (requestBody k c)])"
  by (auto simp add: makeOpenAIRequest_def Let_def)

lemma retry_loop_exhausted:
  "\<not> attempt < MAX_RETRIES \<Longrightarrow>
   retry_loop e k c attempt lastError w =
     (Inl (new_Error (lit ''OpenAI API call failed after '' @ show_nat MAX_RETRIES @
            lit '' attempts: '' @
            (case lastError of None \<Rightarrow> lit ''undefined'' | Some l \<Rightarrow> message l))), w)"
  by (subst retry_loop.simps) simp

lemma retry_loop_success:
  "attempt < MAX_RETRIES \<Longrightarrow> makeOpenAIRequest e k c w = (Inr s, w1) \<Longrightarrow>
   retry_loop e k c attempt lastError w = (Inr s, w1)"
  by (subst retry_loop.simps) simp

lemma retry_loop_fatal:
  "attempt < MAX_RETRIES \<Longrightarrow> makeOpenAIRequest e k c w = (Inl err, w1) \<Longrightarrow>
   \<not> isRetryableStatus (exn_status err) \<Longrightarrow>
   retry_loop e k c attempt lastError w =
     (Inl (handleNonRetryableError (createRetryableError err)), w1)"
  by (subst retry_loop.simps) (simp add: createRetryableError_def Let_def)

lemma retry_loop_retry:
  "attempt < MAX_RETRIES \<Longrightarrow> makeOpenAIRequest e k c w = (Inl err, w1) \<Longrightarrow>
   isRetryableStatus (exn_status err) \<Longrightarrow>
   retry_loop e k c attempt lastError w =
     retry_loop e k c (attempt + 1) (Some (createRetryableError err))
       (if attempt < MAX_RETRIES - 1
        then w1 @ [Slept (RETRY_DELAY_MS * 2 ^ attempt)] else w1)"
  by (subst retry_loop.simps) (simp add: createRetryableError_def Let_def)

lemma retry_loop_requests_mono:
  "length (requests w) \<le> length (requests (snd (retry_loop e k c attempt lastError w)))"
proof (induction e k c attempt lastError w rule: retry_loop.induct)
  case (1 e k c attempt lastError w)
  show ?case
  proof (cases "attempt < MAX_RETRIES")
    case False
    then show ?thesis by (simp add: retry_loop_exhausted)
  next
    case True
    obtain r w1 where m: "makeOpenAIRequest e k c w = (r, w1)" by (cases "makeOpenAIRequest e k c w")
    have w1: "w1 = w @ [Sent (requestBody k c)]"
      using makeOpenAIRequest_world [of e k c w] m by simp
    show ?thesis
    proof (cases r)
      case (Inr s)
      with True m w1 show ?thesis by (simp add: retry_loop_success)
    next
      case (Inl err)
      show ?thesis
      proof (cases "isRetryableStatus (exn_status err)")
        case False
        with True m Inl w1 show ?thesis by (simp add: retry_loop_fatal)
      next
        case r: True
        have ir: "isRetryable (createRetryableError err)"
          using r by (simp add: createRetryableError_def Let_def)
        note ih = "1.IH" [OF True m [symmetric, unfolded Inl] refl refl _ refl, simplified ir]
        show ?thesis
          using ih True m Inl r w1
          by (auto simp add: retry_loop_retry [OF True m [unfolded Inl] r] split: if_splits)
      qed
    qed
  qed
qed


lemma retry_loop_requests_grow:
  assumes "attempt < MAX_RETRIES"
  shows "length (requests w) < length (requests (snd (retry_loop e k c attempt lastError w)))"
proof -
  obtain r w1 where m: "makeOpenAIRequest e k c w = (r, w1)" by (cases "makeOpenAIRequest e k c w")
  have w1: "length (requests w1) = Suc (length (requests w))"
    using makeOpenAIRequest_world [of e k c w] m by simp
  show ?thesis
  proof (cases r)
    case (Inr s)
    with assms m w1 show ?thesis by (simp add: retry_loop_success)
  next
    case (Inl err)
    show ?thesis
    proof (cases "isRetryableStatus (exn_status err)")
      case False
      with assms m Inl w1 show ?thesis by (simp add: retry_loop_fatal)
    next
      case True
      let ?w2 = "if attempt < MAX_RETRIES - 1
                 then w1 @ [Slept (RETRY_DELAY_MS * 2 ^ attempt)] else w1"
      have "length (requests ?w2) \<le>
            length (requests (snd (retry_loop e k c (attempt + 1) (Some (createRetryableError err)) ?w2)))"
        by (rule retry_loop_requests_mono)
      moreover have "length (requests ?w2) = Suc (length (requests w))"
        using w1 by simp
      ultimately show ?thesis
        using retry_loop_retry [OF assms m [unfolded Inl] True, of lastError] by simp
    qed
  qed
qed

lemma aggregate_message:
  "lit ''OpenAI API call failed after '' @ show_nat MAX_RETRIES @ lit '' attempts: '' @ m =
   lit ''OpenAI API call failed after 3 attempts: '' @ m"
  by (simp add: MAX_RETRIES_def lit_def cu_def)

lemma callOpenAIChat_first_success:
  assumes "OPENAI_API_KEY e = Some k" "k \<noteq> []"
    and "axios_post e (length (requests w)) (requestBody k c) = Responded (Some s)" "s \<noteq> []"
  shows "callOpenAIChat e c w = (Inr s, w @ [Sent (requestBody k c)])"
  using assms
  by (simp add: callOpenAIChat_def retry_loop_success [OF _ makeOpenAIRequest_content] MAX_RETRIES_def)

lemma callOpenAIChat_first_fatal:
  assumes "OPENAI_API_KEY e = Some k" "k \<noteq> []"
    and "axios_post e (length (requests w)) (requestBody k c) = Threw s m"
    and "\<not> isRetryableStatus s"
  shows "callOpenAIChat e c w =
         (Inl (handleNonRetryableError (createRetryableError (JsError m s))),
          w @ [Sent (requestBody k c)])"
  using assms
  by (simp add: callOpenAIChat_def retry_loop_fatal [OF _ makeOpenAIRequest_Threw] MAX_RETRIES_def)

lemma answering_env_call:
  "content \<noteq> [] \<Longrightarrow>
   callOpenAIChat (answering_env content) c w =
     (Inr content, w @ [Sent (requestBody (lit ''sk-test'') c)])"
  by (rule callOpenAIChat_first_success) (simp_all add: answering_env_def mk_env_def lit_def)

lemma answering_env_parse: "JSON_parse (answering_env content) = demo_parse"
  by (simp add: answering_env_def mk_env_def)

lemma score_answers:
  "trim (score_answer ''55.5'') = score_answer ''55.5''"
  "trim (score_answer ''150'') = score_answer ''150''"
  "trim (score_answer ''-10'') = score_answer ''-10''"
  "demo_parse (score_answer ''55.5'') = Inr (score_json (111 / 2))"
  "demo_parse (score_answer ''150'') = Inr (score_json 150)"
  "demo_parse (score_answer ''-10'') = Inr (score_json (- 10))"
  by code_simp+

lemma score_answer_nonempty: "score_answer n \<noteq> []"
  by (simp add: score_answer_def lit_def)

lemma score_json_prop: "get_prop (score_json q) ''matchScore'' = Some (JNum (Fin q))"
  "score_json q \<noteq> JNull"
  by (simp_all add: score_json_def)

text \<open>
  C1 (amended). After a failed attempt a further attempt is made exactly when the failure
  carries status 429, 500, 502 or 503 and the failed attempt was not the third one. A 401
  ends the call at once with the invalid-credential error, a 400 with the invalid-request
  error, and any other status or a failure without a status (a network error, a timeout,
  the empty-content error) ends it at once with the error object built from the failure.
\<close>

theorem retry_decision:
  assumes "attempt < MAX_RETRIES" and "makeOpenAIRequest e k c w = (Inl err, w1)"
  shows "(length (requests w1) < length (requests (snd (retry_loop e k c attempt lastError w)))
            \<longleftrightarrow> isRetryableStatus (exn_status err) \<and> attempt + 1 < MAX_RETRIES)
       \<and> (isRetryableStatus (exn_status err)
            \<longleftrightarrow> exn_status err \<in> {Some 429, Some 500, Some 502, Some 503})
       \<and> (exn_status err = Some 401 \<longrightarrow>
            retry_loop e k c attempt lastError w =
              (Inl (new_Error (lit ''Invalid OpenAI API key'')), w1))
       \<and> (exn_status err = Some 400 \<longrightarrow>
            retry_loop e k c attempt lastError w =
              (Inl (new_Error (lit ''Invalid request to OpenAI API'')), w1))
       \<and> (exn_status err \<notin> {Some 429, Some 500, Some 502, Some 503, Some 401, Some 400} \<longrightarrow>
            retry_loop e k c attempt lastError w = (Inl (PlainObj (createRetryableError err)), w1))"
proof -
  let ?run = "retry_loop e k c attempt lastError w"
  have fatal: "?run = (Inl (handleNonRetryableError (createRetryableError err)), w1)"
    if "\<not> isRetryableStatus (exn_status err)"
    using retry_loop_fatal [OF assms that] .
  have st: "statusCode (createRetryableError err) = exn_status err"
    by (simp add: createRetryableError_def Let_def)
  have a: "length (requests w1) < length (requests (snd ?run))
            \<longleftrightarrow> isRetryableStatus (exn_status err) \<and> attempt + 1 < MAX_RETRIES"
  proof (cases "isRetryableStatus (exn_status err)")
    case False
    with fatal show ?thesis by simp
  next
    case True
    let ?w2 = "if attempt < MAX_RETRIES - 1
               then w1 @ [Slept (RETRY_DELAY_MS * 2 ^ attempt)] else w1"
    have step: "?run = retry_loop e k c (attempt + 1) (Some (createRetryableError err)) ?w2"
      using retry_loop_retry [OF assms True] .
    show ?thesis
    proof (cases "attempt + 1 < MAX_RETRIES")
      case False
      with step True show ?thesis by (simp add: retry_loop_exhausted)
    next
      case more: True
      have "length (requests ?w2) <
            length (requests (snd (retry_loop e k c (attempt + 1) (Some (createRetryableError err)) ?w2)))"
        using more by (rule retry_loop_requests_grow)
      with step True more show ?thesis by (simp split: if_splits)
    qed
  qed
  have b: "isRetryableStatus (exn_status err)
            \<longleftrightarrow> exn_status err \<in> {Some 429, Some 500, Some 502, Some 503}"
    by (auto simp: isRetryableStatus_def)
  have c401: "?run = (Inl (new_Error (lit ''Invalid OpenAI API key'')), w1)"
    if "exn_status err = Some 401"
    using fatal that st by (simp add: isRetryableStatus_def handleNonRetryableError_def)
  have c400: "?run = (Inl (new_Error (lit ''Invalid request to OpenAI API'')), w1)"
    if "exn_status err = Some 400"
    using fatal that st by (simp add: isRetryableStatus_def handleNonRetryableError_def)
  have other: "?run = (Inl (PlainObj (createRetryableError err)), w1)"
    if "exn_status err \<notin> {Some 429, Some 500, Some 502, Some 503, Some 401, Some 400}"
    using fatal that st by (simp add: isRetryableStatus_def handleNonRetryableError_def)
  from a b c401 c400 other show ?thesis by blast
qed

lemma three_failures:
  assumes a0: "axios_post e (length (requests w)) (requestBody k c) = Threw s0 m0"
            "isRetryableStatus s0"
    and a1: "axios_post e (length (requests w) + 1) (requestBody k c) = Threw s1 m1"
            "isRetryableStatus s1"
    and a2: "axios_post e (length (requests w) + 2) (requestBody k c) = Threw s2 m2"
            "isRetryableStatus s2"
  shows "retry_loop e k c 0 None w =
           (Inl (new_Error (lit ''OpenAI API call failed after 3 attempts: '' @
                   (if m2 \<noteq> [] then m2 else lit ''OpenAI API request failed''))),
            w @ [Sent (requestBody k c), Slept 1000,
                 Sent (requestBody k c), Slept 2000,
                 Sent (requestBody k c)])"
proof -
  let ?q = "requestBody k c"
  let ?w1 = "w @ [Sent ?q]"
  let ?w1' = "w @ [Sent ?q, Slept 1000]"
  let ?w2 = "w @ [Sent ?q, Slept 1000, Sent ?q]"
  let ?w2' = "w @ [Sent ?q, Slept 1000, Sent ?q, Slept 2000]"
  let ?w3 = "w @ [Sent ?q, Slept 1000, Sent ?q, Slept 2000, Sent ?q]"
  have m0: "makeOpenAIRequest e k c w = (Inl (JsError m0 s0), ?w1)"
    using a0(1) by (rule makeOpenAIRequest_Threw)
  have m1: "makeOpenAIRequest e k c ?w1' = (Inl (JsError m1 s1), ?w2)"
    using makeOpenAIRequest_Threw [of e ?w1' k c s1 m1] a1(1) by simp
  have m2: "makeOpenAIRequest e k c ?w2' = (Inl (JsError m2 s2), ?w3)"
    using makeOpenAIRequest_Threw [of e ?w2' k c s2 m2] a2(1) by simp
  have "retry_loop e k c 0 None w =
        retry_loop e k c (Suc 0) (Some (createRetryableError (JsError m0 s0))) ?w1'"
    using retry_loop_retry [OF _ m0, of 0 None] a0(2) by (simp add: MAX_RETRIES_def RETRY_DELAY_MS_def)
  also have "\<dots> = retry_loop e k c (Suc (Suc 0)) (Some (createRetryableError (JsError m1 s1))) ?w2'"
    using retry_loop_retry [OF _ m1, of "Suc 0"] a1(2) by (simp add: MAX_RETRIES_def RETRY_DELAY_MS_def)
  also have "\<dots> =
        retry_loop e k c (Suc (Suc (Suc 0))) (Some (createRetryableError (JsError m2 s2))) ?w3"
    using retry_loop_retry [OF _ m2, of "Suc (Suc 0)"] a2(2) by (simp add: MAX_RETRIES_def RETRY_DELAY_MS_def)
  also have "\<dots> = (Inl (new_Error (lit ''OpenAI API call failed after 3 attempts: '' @
                   (if m2 \<noteq> [] then m2 else lit ''OpenAI API request failed''))), ?w3)"
    by (simp add: retry_loop_exhausted MAX_RETRIES_def aggregate_message [unfolded MAX_RETRIES_def]
          createRetryableError_def Let_def del: show_nat.simps)
  finally show ?thesis by simp
qed


theorem retry_decision_witness:
  "length (requests (snd (makeOpenAIRequest (failing_env (Some 429)) (lit ''sk-test'') c0 w0)))
     < length (requests (snd (retry_loop (failing_env (Some 429)) (lit ''sk-test'') c0 0 None w0))) \<and>
   retry_loop (failing_env (Some 401)) (lit ''sk-test'') c0 0 None w0 =
     (Inl (new_Error (lit ''Invalid OpenAI API key'')), [Sent q0]) \<and>
   retry_loop (failing_env (Some 400)) (lit ''sk-test'') c0 0 None w0 =
     (Inl (new_Error (lit ''Invalid request to OpenAI API'')), [Sent q0]) \<and>
   retry_loop (failing_env (Some 404)) (lit ''sk-test'') c0 0 None w0 =
     (Inl (PlainObj \<lparr> name = lit ''OpenAIError'', message = lit ''busy'',
                      isRetryable = False, statusCode = Some 404 \<rparr>), [Sent q0]) \<and>
   retry_loop silent_env (lit ''sk-test'') c0 0 None w0 =
     (Inl (PlainObj \<lparr> name = lit ''OpenAIError'', message = lit ''Empty response from OpenAI API'',
                      isRetryable = False, statusCode = None \<rparr>), [Sent q0])"
proof -
  have m: "makeOpenAIRequest (failing_env s) (lit ''sk-test'') c0 w0 =
           (Inl (JsError (lit ''busy'') s), [Sent q0])" for s
    by (simp add: makeOpenAIRequest_def failing_env_def mk_env_def w0_def q0_def)
  have ms: "makeOpenAIRequest silent_env (lit ''sk-test'') c0 w0 =
           (Inl (new_Error (lit ''Empty response from OpenAI API'')), [Sent q0])"
    by (simp add: makeOpenAIRequest_def silent_env_def mk_env_def w0_def q0_def)
  have lt: "(0::nat) < MAX_RETRIES" by (simp add: MAX_RETRIES_def)
  have ne: "lit ''busy'' \<noteq> []" "lit ''Empty response from OpenAI API'' \<noteq> []"
    by (simp_all add: lit_def)
  show ?thesis
    using retry_decision [OF lt m [of "Some 429"], of None]
      retry_decision [OF lt m [of "Some 401"], of None]
      retry_decision [OF lt m [of "Some 400"], of None]
      retry_decision [OF lt m [of "Some 404"], of None]
      retry_decision [OF lt ms, of None]
    by (simp add: m MAX_RETRIES_def createRetryableError_def isRetryableStatus_def new_Error_def ne)
qed

text \<open>
  The claim as stated fails on the third attempt: it fails with status 429, and no fourth
  request is sent.
\<close>

theorem third_failure_not_retried:
  "callOpenAIChat (failing_env (Some 429)) c0 w0 =
     (Inl (new_Error (lit ''OpenAI API call failed after 3 attempts: busy'')),
      [Sent q0, Slept 1000, Sent q0, Slept 2000, Sent q0]) \<and>
   axios_post (failing_env (Some 429)) 2 q0 = Threw (Some 429) (lit ''busy'') \<and>
   isRetryableStatus (Some 429)"
  using three_failures [of "failing_env (Some 429)" w0 "lit ''sk-test''" c0
      "Some 429" "lit ''busy''" "Some 429" "lit ''busy''" "Some 429" "lit ''busy''"]
  by (simp add: callOpenAIChat_def failing_env_def mk_env_def w0_def q0_def
        isRetryableStatus_def lit_def)

text \<open>
  C2. When the credential is configured and three attempts in a row fail with a retryable
  status, the effects of the call are, in this order and with nothing else: the first
  request, a delay of 1000 ms, the second request, a delay of 2000 ms, the third request.
  So there are exactly three attempts and no delay after the last one. The call then fails
  with the error whose message names the 3 attempts and the message of the last failure.
\<close>

theorem retries_exhausted:
  assumes "OPENAI_API_KEY e = Some k" "k \<noteq> []"
    and "axios_post e (length (requests w)) (requestBody k c) = Threw s0 m0"
        "isRetryableStatus s0"
    and "axios_post e (length (requests w) + 1) (requestBody k c) = Threw s1 m1"
        "isRetryableStatus s1"
    and "axios_post e (length (requests w) + 2) (requestBody k c) = Threw s2 m2"
        "isRetryableStatus s2"
  shows "callOpenAIChat e c w =
           (Inl (new_Error (lit ''OpenAI API call failed after 3 attempts: '' @
                   (if m2 \<noteq> [] then m2 else lit ''OpenAI API request failed''))),
            w @ [Sent (requestBody k c), Slept 1000,
                 Sent (requestBody k c), Slept 2000,
                 Sent (requestBody k c)])"
proof -
  have "callOpenAIChat e c w = retry_loop e k c 0 None w"
    using assms(1,2) by (simp add: callOpenAIChat_def)
  also note three_failures [OF assms(3-8)]
  finally show ?thesis .
qed

theorem retries_exhausted_witness:
  "callOpenAIChat (failing_env (Some 503)) c0 w0 =
     (Inl (new_Error (lit ''OpenAI API call failed after 3 attempts: busy'')),
      [Sent q0, Slept 1000, Sent q0, Slept 2000, Sent q0])"
  using retries_exhausted [of "failing_env (Some 503)" "lit ''sk-test''" w0 c0
      "Some 503" "lit ''busy''" "Some 503" "lit ''busy''" "Some 503" "lit ''busy''"]
  by (simp add: failing_env_def mk_env_def w0_def q0_def isRetryableStatus_def lit_def)

section \<open>Properties of the parsers and normalizers\<close>

lemma receiver_value: "v \<noteq> JNull \<Longrightarrow> receiver e (Some v) k = Inr v"
  by (cases v) (simp_all add: receiver_def)

lemma callOpenAI_parsed:
  assumes "callOpenAIChat e (match_completion (sanitizeText (Some (JStr (take 3000 jd)))) jj rj) w
             = (Inr response, w')"
    and "JSON_parse e (trim response) = Inr parsed" and "parsed \<noteq> JNull"
  shows "callOpenAI e jd rj jj w =
           (Inr \<lparr> matchScore =
                    Math_min (Fin 100)
                      (Math_max (Fin 0)
                         (ToNumber e (js_or (get_prop parsed ''matchScore'') (JNum (Fin 0))))),
                  matchedSkills = js_or (get_prop parsed ''matchedSkills'') (JArr []),
                  missingSkills = js_or (get_prop parsed ''missingSkills'') (JArr []),
                  suggestions = js_or (get_prop parsed ''suggestions'') (JArr []),
                  sampleBullets = js_or (get_prop parsed ''sampleBullets'') (JArr []),
                  analysisSummary = js_or (get_prop parsed ''summary'') (JStr []) \<rparr>, w')"
  using assms
  by (simp add: callOpenAI_def Let_def match_body_def parse_response_def receiver_value
        catch_rethrow_def)

lemma clamp_finite:
  "Math_min (Fin 100) (Math_max (Fin 0) (ToNumber e (js_or (Some (JNum (Fin q))) (JNum (Fin 0)))))
     = Fin (min 100 (max 0 q))"
  by (simp add: js_or_def ToNumber_def min_def max_def)

lemma clamp_numeric:
  assumes "v = None \<or> v = Some JNull \<or> v = Some (JNum n)"
  shows "\<exists>q. Math_min (Fin 100) (Math_max (Fin 0) (ToNumber e (js_or v (JNum (Fin 0))))) = Fin q
             \<and> 0 \<le> q \<and> q \<le> 100"
proof -
  consider "v = None \<or> v = Some JNull" | "v = Some (JNum n)" using assms by blast
  then show ?thesis
  proof cases
    case 1
    then show ?thesis by (auto simp: js_or_def ToNumber_def)
  next
    case 2
    then show ?thesis
      by (cases n) (auto simp: js_or_def ToNumber_def)
  qed
qed

lemma clamp_integer:
  assumes "is_integer n"
  shows "is_integer (Math_min (Fin 100) (Math_max (Fin 0) (ToNumber e (js_or (Some (JNum n)) (JNum (Fin 0))))))"
proof -
  from assms obtain q where n: "n = Fin q" and q: "q = of_int \<lfloor>q\<rfloor>" by (cases n) auto
  have "min 100 (max 0 q) = of_int (min 100 (max 0 \<lfloor>q\<rfloor>))"
    by (subst q) (simp add: min_def max_def)
  then show ?thesis
    unfolding n clamp_finite by (metis floor_of_int is_integer.simps(1))
qed

text \<open>
  C3 (amended). When the model's parsed response is not \<open>null\<close> and its \<open>matchScore\<close> is
  a number, \<open>null\<close> or absent, the match analysis returns, and its \<open>matchScore\<close> is a
  number within [0,100]: a finite value \<open>q\<close> gives \<open>min(100, max(0, q))\<close>, so 150 gives 100
  and -10 gives 0, and an integer value gives an integer. A fractional value is clamped
  but not rounded.
\<close>

theorem matchScore_normalized:
  assumes "callOpenAIChat e (match_completion (sanitizeText (Some (JStr (take 3000 jd)))) jj rj) w
             = (Inr response, w')"
    and "JSON_parse e (trim response) = Inr parsed" and "parsed \<noteq> JNull"
    and "get_prop parsed ''matchScore'' = None \<or> get_prop parsed ''matchScore'' = Some JNull \<or>
         get_prop parsed ''matchScore'' = Some (JNum n)"
  shows "\<exists>r. callOpenAI e jd rj jj w = (Inr r, w') \<and>
           (\<exists>q. matchScore r = Fin q \<and> 0 \<le> q \<and> q \<le> 100) \<and>
           (get_prop parsed ''matchScore'' = Some (JNum n) \<and> is_integer n
              \<longrightarrow> is_integer (matchScore r)) \<and>
           (\<forall>q. get_prop parsed ''matchScore'' = Some (JNum (Fin q))
              \<longrightarrow> matchScore r = Fin (min 100 (max 0 q)))"
  using callOpenAI_parsed [OF assms(1-3)] clamp_numeric [OF assms(4), of e]
    clamp_integer [of n e] clamp_finite [of e]
  by auto


theorem matchScore_normalized_witness:
  "(\<exists>r. callOpenAI (answering_env (score_answer ''150'')) jd0 (lit ''<json>'') (lit ''<json>'') w0 =
          (Inr r, [Sent (requestBody (lit ''sk-test'') match0)]) \<and>
        matchScore r = Fin 100 \<and> is_integer (matchScore r)) \<and>
   (\<exists>r. callOpenAI (answering_env (score_answer ''-10'')) jd0 (lit ''<json>'') (lit ''<json>'') w0 =
          (Inr r, [Sent (requestBody (lit ''sk-test'') match0)]) \<and>
        matchScore r = Fin 0 \<and> is_integer (matchScore r))"
proof -
  have w: "w0 @ [Sent q] = [Sent q]" for q
    by (simp add: w0_def)
  have i: "is_integer (Fin 150)" "is_integer (Fin (- 10))" by simp_all
  show ?thesis
    using matchScore_normalized [of "answering_env (score_answer ''150'')" jd0 "lit ''<json>''"
        "lit ''<json>''" w0 "score_answer ''150''" _ "score_json 150" "Fin 150"]
      matchScore_normalized [of "answering_env (score_answer ''-10'')" jd0 "lit ''<json>''"
        "lit ''<json>''" w0 "score_answer ''-10''" _ "score_json (- 10)" "Fin (- 10)"]
    unfolding match0_def [symmetric]
    by (simp add: answering_env_call score_answer_nonempty answering_env_parse score_answers
          score_json_prop w i del: is_integer.simps) blast
qed

text \<open>
  The claim as stated fails on a fractional score: 55.5 is returned as 55.5, which is not
  integer-valued.
\<close>

theorem fractional_score_not_rounded:
  "callOpenAI (answering_env (score_answer ''55.5'')) jd0 (lit ''<json>'') (lit ''<json>'') w0 =
     (Inr \<lparr> matchScore = Fin (111 / 2), matchedSkills = JArr [], missingSkills = JArr [],
            suggestions = JArr [], sampleBullets = JArr [], analysisSummary = JStr [] \<rparr>,
      [Sent (requestBody (lit ''sk-test'') match0)]) \<and>
   \<not> is_integer (Fin (111 / 2))"
proof -
  have w: "w0 @ [Sent q] = [Sent q]" for q
    by (simp add: w0_def)
  have "\<lfloor>(111::rat) / 2\<rfloor> = 55" by (rule floor_unique) simp_all
  then have "\<not> is_integer (Fin (111 / 2))" by simp
  then show ?thesis
    using callOpenAI_parsed [of "answering_env (score_answer ''55.5'')" jd0 "lit ''<json>''"
        "lit ''<json>''" w0 "score_answer ''55.5''" _ "score_json (111 / 2)"]
    unfolding match0_def [symmetric]
    by (simp add: answering_env_call score_answer_nonempty answering_env_parse score_answers
          score_json_prop w ToNumber_def js_or_def score_json_def del: is_integer.simps)
qed

lemma receiver_Inr: "receiver e (Some v) k = Inr x \<longleftrightarrow> v \<noteq> JNull \<and> x = v"
  by (cases v) (auto simp: receiver_def)

lemma js_or_not_null: "d \<noteq> JNull \<Longrightarrow> js_or v d \<noteq> JNull"
  by (cases v rule: truthy.cases) (auto simp: js_or_def)

lemma js_or_absent: "v = None \<or> v = Some JNull \<Longrightarrow> js_or v d = d"
  by (auto simp: js_or_def)

lemma js_or_falsy: "\<not> truthy v \<Longrightarrow> js_or v d = d"
  by (simp add: js_or_def)

lemma js_or_truthy: "truthy v \<Longrightarrow> v = Some (js_or v d)"
  by (cases v) (auto simp: js_or_def)

lemma list_field: "js_or v (JArr []) \<noteq> JNull \<and> (v = None \<or> v = Some JNull \<longrightarrow> js_or v (JArr []) = JArr [])"
  by (simp add: js_or_not_null js_or_absent)

lemma body_parsed:
  "jd_body e response = Inr j \<Longrightarrow> \<exists>parsed. JSON_parse e (trim response) = Inr parsed \<and> parsed \<noteq> JNull"
  "match_body e response = Inr a \<Longrightarrow> \<exists>parsed. JSON_parse e (trim response) = Inr parsed \<and> parsed \<noteq> JNull"
  "tailor_body e response = Inr t \<Longrightarrow> \<exists>parsed. JSON_parse e (trim response) = Inr parsed \<and> parsed \<noteq> JNull"
  by (auto simp: jd_body_def match_body_def tailor_body_def parse_response_def receiver_Inr
        split: sum.splits)

lemma preProcessJD_Inr:
  assumes "preProcessJD e jd w = (Inr j, w')"
  shows "\<exists>response parsed.
           callOpenAIChat e (jd_completion (sanitizeText (Some (JStr (take 6000 jd))))) w
             = (Inr response, w') \<and>
           JSON_parse e (trim response) = Inr parsed \<and> parsed \<noteq> JNull \<and>
           jd_body e response = Inr j"
proof -
  from assms obtain response where
    "callOpenAIChat e (jd_completion (sanitizeText (Some (JStr (take 6000 jd))))) w
       = (Inr response, w')" "jd_body e response = Inr j"
    by (auto simp: preProcessJD_def Let_def catch_rethrow_def split: prod.splits sum.splits)
  then show ?thesis using body_parsed(1) by blast
qed

lemma callOpenAI_Inr:
  assumes "callOpenAI e jd rj jj w = (Inr a, w')"
  shows "\<exists>response parsed.
           callOpenAIChat e (match_completion (sanitizeText (Some (JStr (take 3000 jd)))) jj rj) w
             = (Inr response, w') \<and>
           JSON_parse e (trim response) = Inr parsed \<and> parsed \<noteq> JNull \<and>
           match_body e response = Inr a"
proof -
  from assms obtain response where
    "callOpenAIChat e (match_completion (sanitizeText (Some (JStr (take 3000 jd)))) jj rj) w
       = (Inr response, w')" "match_body e response = Inr a"
    by (auto simp: callOpenAI_def Let_def catch_rethrow_def split: prod.splits sum.splits)
  then show ?thesis using body_parsed(2) by blast
qed

lemma generateTailoredResume_Inr:
  assumes "generateTailoredResume e sJD sr w = (Inr t, w')"
  shows "\<exists>response parsed.
           callOpenAIChat e
             (tailor_completion (JSON_stringify_indent e (StructuredJD_json sJD))
                (JSON_stringify_indent e sr)) w = (Inr response, w') \<and>
           JSON_parse e (trim response) = Inr parsed \<and> parsed \<noteq> JNull \<and>
           tailor_body e response = Inr t"
proof -
  from assms obtain response where
    "callOpenAIChat e
       (tailor_completion (JSON_stringify_indent e (StructuredJD_json sJD))
          (JSON_stringify_indent e sr)) w = (Inr response, w')" "tailor_body e response = Inr t"
    by (auto simp: generateTailoredResume_def catch_rethrow_def split: prod.splits sum.splits)
  then show ?thesis using body_parsed(3) by blast
qed

lemma jd_body_fields:
  assumes "JSON_parse e (trim response) = Inr parsed" "jd_body e response = Inr j"
  shows "list_all (\<lambda>(k, f). f j \<noteq> JNull \<and>
                    (\<not> truthy (get_prop parsed k) \<longrightarrow> f j = JArr []) \<and>
                     (truthy (get_prop parsed k) \<longrightarrow> get_prop parsed k = Some (f j)))
           [(''educationRequirements'', educationRequirements),
            (''responsibilities'', responsibilities),
            (''mustHaveSkills'', mustHaveSkills),
            (''niceToHaveSkills'', niceToHaveSkills),
            (''technologies'', technologies)]"
  using assms
  by (auto simp: jd_body_def parse_response_def receiver_Inr js_or_not_null js_or_falsy
        js_or_truthy split: sum.splits)

lemma match_body_fields:
  assumes "JSON_parse e (trim response) = Inr parsed" "match_body e response = Inr a"
  shows "list_all (\<lambda>(k, f). f a \<noteq> JNull \<and>
                    (\<not> truthy (get_prop parsed k) \<longrightarrow> f a = JArr []) \<and>
                     (truthy (get_prop parsed k) \<longrightarrow> get_prop parsed k = Some (f a)))
           [(''matchedSkills'', matchedSkills),
            (''missingSkills'', missingSkills),
            (''suggestions'', suggestions),
            (''sampleBullets'', sampleBullets)]"
  using assms
  by (auto simp: match_body_def parse_response_def receiver_Inr js_or_not_null js_or_falsy
        js_or_truthy split: sum.splits)

lemma tailor_body_fields:
  assumes "JSON_parse e (trim response) = Inr parsed" "tailor_body e response = Inr t"
  shows "list_all (\<lambda>(k, f). f t \<noteq> JNull \<and>
                    (\<not> truthy (get_prop parsed k) \<longrightarrow> f t = JArr []) \<and>
                     (truthy (get_prop parsed k) \<longrightarrow> get_prop parsed k = Some (f t)))
           [(''tailoredSkills'', tailoredSkills),
            (''tailoredExperience'', tailoredExperience),
            (''tailoredProjects'', tailoredProjects),
            (''coverLetterHighlights'', coverLetterHighlights)]"
  using assms
  by (auto simp: tailor_body_def parse_response_def receiver_Inr js_or_not_null js_or_falsy
        js_or_truthy split: sum.splits)

lemma metadata_body_benefits: "metadata_body e response = Inr m \<Longrightarrow> benefits m = JArr []"
  by (auto simp: metadata_body_def split: sum.splits)

lemma parseJobMetadata_benefits:
  assumes "parseJobMetadata e html w = (Inr m, w')"
  shows "benefits m = JArr []"
  using assms
  by (auto simp: parseJobMetadata_def Let_def empty_metadata_def metadata_body_benefits
        split: prod.splits sum.splits)

lemma preprocessResume_parsed:
  assumes "callOpenAIChat e (resume_completion (sanitizeText (Some (JStr (take 6000 resumeText))))) w
             = (Inr response, w')"
  shows "preprocessResume e resumeText w =
           (case JSON_parse e (trim response) of
              Inr parsed \<Rightarrow> (Inr parsed, w')
            | Inl msg \<Rightarrow>
                (Inr (resume_fallback (sanitizeText (Some (JStr (take 6000 resumeText))))), w'))"
  using assms
  by (simp add: preprocessResume_def Let_def catch_rethrow_def parse_response_def
        split: sum.splits)

lemma empty_answer:
  "lit ''{}'' \<noteq> []" "trim (lit ''{}'') = lit ''{}''" "demo_parse (lit ''{}'') = Inr (JObj [])"
  by (simp add: lit_def) code_simp+

lemma refusal_answer:
  "lit ''Sorry, no.'' \<noteq> []" "demo_parse (trim (lit ''Sorry, no.'')) = Inl (lit ''Unexpected token'')"
  by (simp add: lit_def) code_simp

lemma take_sample: "take 6000 sample_text = sample_text"
  by (simp add: sample_text_def lit_def)

text \<open>
  C4 (amended). In every structured job description, match analysis and tailored resume
  that is returned, each top-level list-typed field is a value other than \<open>null\<close>: it is
  the empty sequence when the field is absent from the model's JSON, \<open>null\<close> or otherwise
  falsy there, and it is the model's own value otherwise, passed through unchanged, so a
  list-typed field inside one of its elements is not defaulted. The \<open>benefits\<close> of every
  returned job metadata is the empty sequence. The structured resume is returned exactly
  as parsed, with no defaulting of its fields.
\<close>

theorem list_fields_defaulted:
  "(preProcessJD e jd w = (Inr j, w') \<longrightarrow>
      (\<exists>response parsed.
         callOpenAIChat e (jd_completion (sanitizeText (Some (JStr (take 6000 jd))))) w
           = (Inr response, w') \<and>
         JSON_parse e (trim response) = Inr parsed \<and>
         list_all (\<lambda>(k, f). f j \<noteq> JNull \<and>
                     (\<not> truthy (get_prop parsed k) \<longrightarrow> f j = JArr []) \<and>
                     (truthy (get_prop parsed k) \<longrightarrow> get_prop parsed k = Some (f j)))
           [(''educationRequirements'', educationRequirements),
            (''responsibilities'', responsibilities),
            (''mustHaveSkills'', mustHaveSkills),
            (''niceToHaveSkills'', niceToHaveSkills),
            (''technologies'', technologies)])) \<and>
   (callOpenAI e jd rj jj w = (Inr a, w') \<longrightarrow>
      (\<exists>response parsed.
         callOpenAIChat e (match_completion (sanitizeText (Some (JStr (take 3000 jd)))) jj rj) w
           = (Inr response, w') \<and>
         JSON_parse e (trim response) = Inr parsed \<and>
         list_all (\<lambda>(k, f). f a \<noteq> JNull \<and>
                     (\<not> truthy (get_prop parsed k) \<longrightarrow> f a = JArr []) \<and>
                     (truthy (get_prop parsed k) \<longrightarrow> get_prop parsed k = Some (f a)))
           [(''matchedSkills'', matchedSkills),
            (''missingSkills'', missingSkills),
            (''suggestions'', suggestions),
            (''sampleBullets'', sampleBullets)])) \<and>
   (generateTailoredResume e sJD sr w = (Inr t, w') \<longrightarrow>
      (\<exists>response parsed.
         callOpenAIChat e
           (tailor_completion (JSON_stringify_indent e (StructuredJD_json sJD))
              (JSON_stringify_indent e sr)) w = (Inr response, w') \<and>
         JSON_parse e (trim response) = Inr parsed \<and>
         list_all (\<lambda>(k, f). f t \<noteq> JNull \<and>
                     (\<not> truthy (get_prop parsed k) \<longrightarrow> f t = JArr []) \<and>
                     (truthy (get_prop parsed k) \<longrightarrow> get_prop parsed k = Some (f t)))
           [(''tailoredSkills'', tailoredSkills),
            (''tailoredExperience'', tailoredExperience),
            (''tailoredProjects'', tailoredProjects),
            (''coverLetterHighlights'', coverLetterHighlights)])) \<and>
   (parseJobMetadata e html w = (Inr m, w') \<longrightarrow> benefits m = JArr []) \<and>
   (callOpenAIChat e (resume_completion (sanitizeText (Some (JStr (take 6000 resumeText))))) w
      = (Inr response, w') \<and> JSON_parse e (trim response) = Inr parsed \<longrightarrow>
    preprocessResume e resumeText w = (Inr parsed, w'))"
proof (intro conjI impI)
  assume "preProcessJD e jd w = (Inr j, w')"
  from preProcessJD_Inr [OF this] show "\<exists>response parsed.
         callOpenAIChat e (jd_completion (sanitizeText (Some (JStr (take 6000 jd))))) w
           = (Inr response, w') \<and>
         JSON_parse e (trim response) = Inr parsed \<and>
         list_all (\<lambda>(k, f). f j \<noteq> JNull \<and>
                     (\<not> truthy (get_prop parsed k) \<longrightarrow> f j = JArr []) \<and>
                     (truthy (get_prop parsed k) \<longrightarrow> get_prop parsed k = Some (f j)))
           [(''educationRequirements'', educationRequirements),
            (''responsibilities'', responsibilities),
            (''mustHaveSkills'', mustHaveSkills),
            (''niceToHaveSkills'', niceToHaveSkills),
            (''technologies'', technologies)]"
    using jd_body_fields by blast
next
  assume "callOpenAI e jd rj jj w = (Inr a, w')"
  from callOpenAI_Inr [OF this] show "\<exists>response parsed.
         callOpenAIChat e (match_completion (sanitizeText (Some (JStr (take 3000 jd)))) jj rj) w
           = (Inr response, w') \<and>
         JSON_parse e (trim response) = Inr parsed \<and>
         list_all (\<lambda>(k, f). f a \<noteq> JNull \<and>
                     (\<not> truthy (get_prop parsed k) \<longrightarrow> f a = JArr []) \<and>
                     (truthy (get_prop parsed k) \<longrightarrow> get_prop parsed k = Some (f a)))
           [(''matchedSkills'', matchedSkills),
            (''missingSkills'', missingSkills),
            (''suggestions'', suggestions),
            (''sampleBullets'', sampleBullets)]"
    using match_body_fields by blast
next
  assume "generateTailoredResume e sJD sr w = (Inr t, w')"
  from generateTailoredResume_Inr [OF this] show "\<exists>response parsed.
         callOpenAIChat e
           (tailor_completion (JSON_stringify_indent e (StructuredJD_json sJD))
              (JSON_stringify_indent e sr)) w = (Inr response, w') \<and>
         JSON_parse e (trim response) = Inr parsed \<and>
         list_all (\<lambda>(k, f). f t \<noteq> JNull \<and>
                     (\<not> truthy (get_prop parsed k) \<longrightarrow> f t = JArr []) \<and>
                     (truthy (get_prop parsed k) \<longrightarrow> get_prop parsed k = Some (f t)))
           [(''tailoredSkills'', tailoredSkills),
            (''tailoredExperience'', tailoredExperience),
            (''tailoredProjects'', tailoredProjects),
            (''coverLetterHighlights'', coverLetterHighlights)]"
    using tailor_body_fields by blast
next
  assume "parseJobMetadata e html w = (Inr m, w')"
  then show "benefits m = JArr []" by (rule parseJobMetadata_benefits)
next
  assume "callOpenAIChat e (resume_completion (sanitizeText (Some (JStr (take 6000 resumeText))))) w
      = (Inr response, w') \<and> JSON_parse e (trim response) = Inr parsed"
  then show "preprocessResume e resumeText w = (Inr parsed, w')"
    by (simp add: preprocessResume_parsed)
qed


theorem list_fields_defaulted_witness:
  "(\<exists>j w'. preProcessJD (answering_env (lit ''{}'')) jd0 w0 = (Inr j, w') \<and>
       list_all (\<lambda>f. f j = JArr [])
         [educationRequirements, responsibilities, mustHaveSkills, niceToHaveSkills, technologies]) \<and>
   (\<exists>a w'. callOpenAI (answering_env (lit ''{}'')) jd0 (lit ''<json>'') (lit ''<json>'') w0 = (Inr a, w') \<and>
       list_all (\<lambda>f. f a = JArr []) [matchedSkills, missingSkills, suggestions, sampleBullets]) \<and>
   (\<exists>t w'. generateTailoredResume (answering_env (lit ''{}'')) default_jd (JObj []) w0 = (Inr t, w') \<and>
       list_all (\<lambda>f. f t = JArr [])
         [tailoredSkills, tailoredExperience, tailoredProjects, coverLetterHighlights]) \<and>
   (\<exists>m w'. parseJobMetadata (answering_env (lit ''{}'')) (lit ''<h1>Engineer</h1>'') w0 = (Inr m, w') \<and>
       benefits m = JArr []) \<and>
   (\<exists>w'. preprocessResume (answering_env (lit ''{}'')) sample_text w0 = (Inr (JObj []), w'))"
proof -
  let ?e = "answering_env (lit ''{}'')"
  have call: "callOpenAIChat ?e c w0 = (Inr (lit ''{}''), [Sent (requestBody (lit ''sk-test'') c)])" for c
    by (simp add: answering_env_call empty_answer w0_def)
  have parse: "JSON_parse ?e (trim (lit ''{}'')) = Inr (JObj [])"
    by (simp add: answering_env_parse empty_answer)
  have 1: "\<exists>j w'. preProcessJD ?e jd0 w0 = (Inr j, w') \<and>
       list_all (\<lambda>f. f j = JArr [])
         [educationRequirements, responsibilities, mustHaveSkills, niceToHaveSkills, technologies]"
  proof -
    obtain j w1 where j: "preProcessJD ?e jd0 w0 = (Inr j, w1)"
      by (simp add: preProcessJD_def Let_def call catch_rethrow_def jd_body_def parse_response_def
            parse receiver_def)
    show ?thesis
      using list_fields_defaulted [where e = ?e and jd = jd0 and w = w0 and j = j and w' = w1] j
      by (auto simp: call parse)
  qed
  have 2: "\<exists>a w'. callOpenAI ?e jd0 (lit ''<json>'') (lit ''<json>'') w0 = (Inr a, w') \<and>
       list_all (\<lambda>f. f a = JArr []) [matchedSkills, missingSkills, suggestions, sampleBullets]"
  proof -
    obtain a w2 where a: "callOpenAI ?e jd0 (lit ''<json>'') (lit ''<json>'') w0 = (Inr a, w2)"
      by (simp add: callOpenAI_def Let_def call catch_rethrow_def match_body_def parse_response_def
            parse receiver_def)
    show ?thesis
      using list_fields_defaulted [where e = ?e and jd = jd0 and w = w0 and a = a and w' = w2
          and rj = "lit ''<json>''" and jj = "lit ''<json>''"] a
      by (auto simp: call parse)
  qed
  have 3: "\<exists>t w'. generateTailoredResume ?e default_jd (JObj []) w0 = (Inr t, w') \<and>
       list_all (\<lambda>f. f t = JArr [])
         [tailoredSkills, tailoredExperience, tailoredProjects, coverLetterHighlights]"
  proof -
    obtain t w3 where t: "generateTailoredResume ?e default_jd (JObj []) w0 = (Inr t, w3)"
      by (simp add: generateTailoredResume_def call catch_rethrow_def tailor_body_def
            parse_response_def parse receiver_def)
    show ?thesis
      using list_fields_defaulted [where e = ?e and w = w0 and t = t and w' = w3
          and sJD = default_jd and sr = "JObj []"] t
      by (auto simp: call parse)
  qed
  have 4: "\<exists>m w'. parseJobMetadata ?e (lit ''<h1>Engineer</h1>'') w0 = (Inr m, w') \<and>
       benefits m = JArr []"
  proof -
    obtain m w4 where m: "parseJobMetadata ?e (lit ''<h1>Engineer</h1>'') w0 = (Inr m, w4)"
      by (simp add: parseJobMetadata_def Let_def call metadata_body_def parse_response_def
            parse receiver_def)
    show ?thesis
      using list_fields_defaulted [where e = ?e and w = w0 and m = m and w' = w4
          and html = "lit ''<h1>Engineer</h1>''"] m
      by auto
  qed
  have 5: "\<exists>w'. preprocessResume ?e sample_text w0 = (Inr (JObj []), w')"
    using list_fields_defaulted [where e = ?e and w = w0 and resumeText = sample_text
        and response = "lit ''{}''" and parsed = "JObj []"]
    by (simp add: call parse)
  from 1 2 3 4 5 show ?thesis by blast
qed

text \<open>
  The claim as stated fails for the structured resume: when the model answers \<open>{}\<close>, the
  resume returned is the empty object, in which \<open>skills\<close> is absent. It also fails inside
  a tailored resume: an experience entry whose \<open>bullets\<close> the model set to \<open>null\<close> is
  returned with \<open>bullets\<close> still \<open>null\<close>.
\<close>

lemma generateTailoredResume_parsed:
  assumes "callOpenAIChat e
             (tailor_completion (JSON_stringify_indent e (StructuredJD_json sJD))
                (JSON_stringify_indent e sr)) w = (Inr response, w')"
    and "JSON_parse e (trim response) = Inr parsed" and "parsed \<noteq> JNull"
  shows "generateTailoredResume e sJD sr w =
           (Inr \<lparr> tailoredSummary = js_or (get_prop parsed ''tailoredSummary'') (JStr []),
                  tailoredSkills = js_or (get_prop parsed ''tailoredSkills'') (JArr []),
                  tailoredExperience = js_or (get_prop parsed ''tailoredExperience'') (JArr []),
                  tailoredProjects = js_or (get_prop parsed ''tailoredProjects'') (JArr []),
                  coverLetterHighlights =
                    js_or (get_prop parsed ''coverLetterHighlights'') (JArr []) \<rparr>, w')"
  using assms
  by (simp add: generateTailoredResume_def tailor_body_def parse_response_def receiver_value
        catch_rethrow_def)

lemma nested_answer_facts:
  "nested_answer \<noteq> []" "trim nested_answer = nested_answer"
  "demo_parse nested_answer = Inr nested_json"
  by (simp add: nested_answer_def lit_def) code_simp+

theorem resume_lists_not_defaulted:
  "fst (preprocessResume (answering_env (lit ''{}'')) sample_text w0) = Inr (JObj []) \<and>
   get_prop (JObj []) ''skills'' = None \<and>
   fst (generateTailoredResume (answering_env nested_answer) default_jd (JObj []) w0) =
     Inr \<lparr> tailoredSummary = JStr [], tailoredSkills = JArr [],
           tailoredExperience = JArr [JObj [(lit ''bullets'', JNull)]],
           tailoredProjects = JArr [], coverLetterHighlights = JArr [] \<rparr> \<and>
   get_prop (JObj [(lit ''bullets'', JNull)]) ''bullets'' = Some JNull"
proof -
  have "fst (preprocessResume (answering_env (lit ''{}'')) sample_text w0) = Inr (JObj [])"
    by (simp add: preprocessResume_parsed [where response = "lit ''{}''"] answering_env_call
          empty_answer answering_env_parse)
  moreover have "fst (generateTailoredResume (answering_env nested_answer) default_jd (JObj []) w0) =
     Inr \<lparr> tailoredSummary = JStr [], tailoredSkills = JArr [],
           tailoredExperience = JArr [JObj [(lit ''bullets'', JNull)]],
           tailoredProjects = JArr [], coverLetterHighlights = JArr [] \<rparr>"
    by (subst generateTailoredResume_parsed [where response = nested_answer and parsed = nested_json])
       (simp_all add: answering_env_call nested_answer_facts answering_env_parse nested_json_def
          js_or_def)
  ultimately show ?thesis by simp
qed

lemma retry_loop_Inr_nonempty:
  "retry_loop e k c attempt lastError w = (Inr s, w') \<Longrightarrow> s \<noteq> []"
proof (induction e k c attempt lastError w rule: retry_loop.induct)
  case (1 e k c attempt lastError w)
  show ?case
  proof (cases "attempt < MAX_RETRIES")
    case False
    with "1.prems" show ?thesis by (simp add: retry_loop_exhausted)
  next
    case True
    obtain r w1 where m: "makeOpenAIRequest e k c w = (r, w1)"
      by (cases "makeOpenAIRequest e k c w")
    show ?thesis
    proof (cases r)
      case (Inr t)
      with True m "1.prems" have "t = s" by (simp add: retry_loop_success)
      moreover from m Inr have "t \<noteq> []"
        by (auto simp: makeOpenAIRequest_def Let_def split: http_result.splits option.splits if_splits)
      ultimately show ?thesis by simp
    next
      case (Inl err)
      show ?thesis
      proof (cases "isRetryableStatus (exn_status err)")
        case False
        with True m Inl "1.prems" show ?thesis by (simp add: retry_loop_fatal)
      next
        case r: True
        have ir: "isRetryable (createRetryableError err)"
          using r by (simp add: createRetryableError_def Let_def)
        note ih = "1.IH" [OF True m [symmetric, unfolded Inl] refl refl _ refl, simplified ir]
        show ?thesis
          using ih "1.prems" retry_loop_retry [OF True m [unfolded Inl] r, of lastError]
          by (auto split: if_splits)
      qed
    qed
  qed
qed

lemma callOpenAIChat_Inr_nonempty:
  "callOpenAIChat e c w = (Inr s, w') \<Longrightarrow> s \<noteq> []"
  by (auto simp: callOpenAIChat_def split: option.splits if_splits dest: retry_loop_Inr_nonempty)

text \<open>
  C5 (amended). When the completion call returns a text (which is then never empty) and
  \<open>JSON.parse\<close> rejects that text after \<open>trim()\<close> has removed the white space around it,
  the resume parser does not throw: it returns the object whose \<open>summary\<close> is the first
  1000 code units of the sanitized input, whose other string fields are empty strings and
  whose list fields are empty sequences, and which has no other field.
\<close>

theorem resume_parse_failure_fallback:
  assumes "callOpenAIChat e (resume_completion (sanitizeText (Some (JStr (take 6000 resumeText))))) w
             = (Inr response, w')"
    and "JSON_parse e (trim response) = Inl msg"
  shows "response \<noteq> [] \<and>
         (\<exists>v. preprocessResume e resumeText w = (Inr v, w') \<and>
           get_prop v ''summary'' =
             Some (JStr (take 1000 (sanitizeText (Some (JStr (take 6000 resumeText)))))) \<and>
           list_all (\<lambda>k. get_prop v k = Some (JStr [])) [''name'', ''email'', ''phone'', ''location''] \<and>
           list_all (\<lambda>k. get_prop v k = Some (JArr []))
             [''skills'', ''education'', ''experience'', ''projects'', ''certifications''] \<and>
           (\<forall>k. get_prop v k \<noteq> None \<longrightarrow>
              k \<in> set [''name'', ''email'', ''phone'', ''location'', ''summary'', ''skills'',
                        ''education'', ''experience'', ''projects'', ''certifications'']))"
  using assms callOpenAIChat_Inr_nonempty [OF assms(1)]
  by (simp add: preprocessResume_parsed resume_fallback_def)

theorem resume_parse_failure_fallback_witness:
  "\<exists>v w'. preprocessResume (answering_env (lit ''Sorry, no.'')) sample_text w0 = (Inr v, w') \<and>
          get_prop v ''summary'' = Some (JStr (lit ''Mail [email] ok'')) \<and>
          get_prop v ''skills'' = Some (JArr []) \<and> get_prop v ''name'' = Some (JStr [])"
  using resume_parse_failure_fallback [where e = "answering_env (lit ''Sorry, no.'')"
      and resumeText = sample_text and w = w0 and response = "lit ''Sorry, no.''"
      and msg = "lit ''Unexpected token''"]
  by (simp add: answering_env_call refusal_answer answering_env_parse take_sample sample_sanitized)
    (simp add: lit_def, blast)

text \<open>
  The claim as stated fails on two model texts that \<open>JSON.parse\<close> rejects. On the empty
  text the completion client throws its empty-response error, and the resume parser throws
  in turn. On the empty object behind a byte order mark, \<open>trim()\<close> removes the mark, the
  rest parses, and the parsed value is returned instead of the fallback.
\<close>

lemma empty_text_call:
  "callOpenAIChat (answering_env []) c w0 =
     (Inl (PlainObj \<lparr> name = lit ''OpenAIError'', message = lit ''Empty response from OpenAI API'',
                      isRetryable = False, statusCode = None \<rparr>),
      [Sent (requestBody (lit ''sk-test'') c)])"
  by (simp add: callOpenAIChat_def answering_env_def mk_env_def MAX_RETRIES_def
        retry_loop_fatal [OF _ makeOpenAIRequest_empty [where x = "Some []"]]
        w0_def new_Error_def isRetryableStatus_def handleNonRetryableError_def
        createRetryableError_def Let_def lit_def)

lemma bom_answer_facts:
  "bom_answer \<noteq> []" "trim bom_answer = lit ''{}''"
  "demo_parse bom_answer = Inl (lit ''Unexpected token'')"
  "demo_parse [] = Inl (lit ''Unexpected token'')"
  by (simp add: bom_answer_def) code_simp+

theorem unparseable_text_without_fallback:
  "JSON_parse (answering_env []) [] = Inl (lit ''Unexpected token'') \<and>
   fst (preprocessResume (answering_env []) sample_text w0) =
     Inl (new_Error (lit ''Failed to preprocess resume: '' @ lit ''Unknown error'')) \<and>
   JSON_parse (answering_env bom_answer) bom_answer = Inl (lit ''Unexpected token'') \<and>
   fst (preprocessResume (answering_env bom_answer) sample_text w0) = Inr (JObj [])"
proof -
  have "fst (preprocessResume (answering_env []) sample_text w0) =
     Inl (new_Error (lit ''Failed to preprocess resume: '' @ lit ''Unknown error''))"
    by (simp add: preprocessResume_def Let_def empty_text_call catch_rethrow_def)
  moreover have "fst (preprocessResume (answering_env bom_answer) sample_text w0) = Inr (JObj [])"
    by (simp add: preprocessResume_parsed [where response = bom_answer] answering_env_call
          bom_answer_facts answering_env_parse empty_answer)
  ultimately show ?thesis
    by (simp add: answering_env_parse bom_answer_facts)
qed

section \<open>Properties of the orchestrator\<close>

lemma error_text_new_Error [simp]: "error_text (new_Error m) = m"
  by (simp add: new_Error_def)

lemma scripted_env_simps:
  "OPENAI_API_KEY (scripted_env s) = Some (lit ''sk-test'')"
  "axios_post (scripted_env s) n q =
     (if n < length s then s ! n else Threw None (lit ''Network Error''))"
  "JSON_parse (scripted_env s) = demo_parse"
  "JSON_stringify (scripted_env s) j = lit ''<json>''"
  "JSON_stringify_indent (scripted_env s) j = lit ''<json>''"
  by (simp_all add: scripted_env_def mk_env_def)

lemma key_nonempty: "lit ''sk-test'' \<noteq> []"
  by (simp add: lit_def)

lemma scripted_success:
  assumes "length (requests w) < length s" "s ! length (requests w) = Responded (Some content)"
    "content \<noteq> []"
  shows "callOpenAIChat (scripted_env s) c w =
           (Inr content, w @ [Sent (requestBody (lit ''sk-test'') c)])"
  using assms
  by (intro callOpenAIChat_first_success) (simp_all add: scripted_env_simps key_nonempty)

lemma scripted_fatal:
  assumes "axios_post (scripted_env s) (length (requests w)) (requestBody (lit ''sk-test'') c)
             = Threw st m" "\<not> isRetryableStatus st"
  shows "callOpenAIChat (scripted_env s) c w =
           (Inl (handleNonRetryableError (createRetryableError (JsError m st))),
            w @ [Sent (requestBody (lit ''sk-test'') c)])"
  using assms
  by (intro callOpenAIChat_first_fatal) (simp_all add: scripted_env_simps key_nonempty)

lemma service_failed:
  "callOpenAIChat e (jd_completion (sanitizeText (Some (JStr (take 6000 jd))))) w = (Inl err, w')
   \<Longrightarrow> preProcessJD e jd w =
         (Inl (new_Error (lit ''Failed to preprocess job description: '' @ error_text err)), w')"
  "callOpenAIChat e (match_completion (sanitizeText (Some (JStr (take 3000 jd)))) jj rj) w
     = (Inl err, w')
   \<Longrightarrow> callOpenAI e jd rj jj w =
         (Inl (new_Error (lit ''Failed to analyze job description and resume: '' @ error_text err)),
          w')"
  "callOpenAIChat e
     (tailor_completion (JSON_stringify_indent e (StructuredJD_json sJD))
        (JSON_stringify_indent e sr)) w = (Inl err, w')
   \<Longrightarrow> generateTailoredResume e sJD sr w =
         (Inl (new_Error (lit ''Failed to generate tailored resume: '' @ error_text err)), w')"
  by (simp_all add: preProcessJD_def callOpenAI_def generateTailoredResume_def Let_def
        catch_rethrow_def)

lemma preProcessJD_empty_object:
  assumes "callOpenAIChat e (jd_completion (sanitizeText (Some (JStr (take 6000 jd))))) w
             = (Inr response, w')"
    and "JSON_parse e (trim response) = Inr (JObj [])"
  shows "preProcessJD e jd w = (Inr default_jd, w')"
  using assms
  by (simp add: preProcessJD_def Let_def jd_body_def parse_response_def receiver_def
        catch_rethrow_def default_jd_def js_or_def)

lemma generateTailoredResume_empty_object:
  assumes "callOpenAIChat e
             (tailor_completion (JSON_stringify_indent e (StructuredJD_json sJD))
                (JSON_stringify_indent e sr)) w = (Inr response, w')"
    and "JSON_parse e (trim response) = Inr (JObj [])"
  shows "generateTailoredResume e sJD sr w = (Inr empty_tailored, w')"
  using assms
  by (simp add: generateTailoredResume_def tailor_body_def parse_response_def receiver_def
        catch_rethrow_def empty_tailored_def js_or_def)

lemma html_sample:
  "lit ''<h1>Engineer</h1>'' \<noteq> []" "trim (lit ''<h1>Engineer</h1>'') \<noteq> []"
  by (simp add: lit_def) code_simp

lemma metadata_step_failed:
  assumes "html \<noteq> []" "trim html \<noteq> []"
    and "callOpenAIChat e (metadata_completion (sanitizeText (Some (JStr (take 6000 html))))) w
           = (r, w')"
    and "r = Inl err \<or> (\<exists>response. r = Inr response \<and> metadata_body e response = Inl err)"
  shows "metadata_step e (Some html) w = (Some empty_metadata, w')"
  using assms by (auto simp: metadata_step_def parseJobMetadata_def Let_def)

lemma run_c7:
  defines "e \<equiv> scripted_env answers_c7"
  defines "q1 \<equiv> requestBody (lit ''sk-test'') (jd_completion (sanitizeText (Some (JStr (take 6000 jd0)))))"
  defines "q2 \<equiv> requestBody (lit ''sk-test'')
                   (metadata_completion (sanitizeText (Some (JStr (take 6000 (lit ''<h1>Engineer</h1>''))))))"
  defines "q3 \<equiv> requestBody (lit ''sk-test'')
                   (match_completion (sanitizeText (Some (JStr (take 3000 jd0)))) (lit ''<json>'') (lit ''<json>''))"
  defines "q4 \<equiv> requestBody (lit ''sk-test'') (tailor_completion (lit ''<json>'') (lit ''<json>''))"
  shows "preProcessJD e jd0 w0 = (Inr default_jd, [Sent q1])"
    and "callOpenAIChat e (metadata_completion (sanitizeText (Some (JStr (take 6000 (lit ''<h1>Engineer</h1>''))))))
           ([Sent q1]) =
         (Inl (PlainObj \<lparr> name = lit ''OpenAIError'', message = lit ''Network Error'',
                          isRetryable = False, statusCode = None \<rparr>), [Sent q1, Sent q2])"
    and "callOpenAI e jd0 (JSON_stringify e (JObj [])) (JSON_stringify e (StructuredJD_json default_jd))
           ([Sent q1, Sent q2]) =
         (Inr \<lparr> matchScore = Fin 100, matchedSkills = JArr [], missingSkills = JArr [],
                suggestions = JArr [], sampleBullets = JArr [], analysisSummary = JStr [] \<rparr>,
          [Sent q1, Sent q2, Sent q3])"
    and "generateTailoredResume e default_jd (JObj []) ([Sent q1, Sent q2, Sent q3]) =
         (Inr empty_tailored, [Sent q1, Sent q2, Sent q3, Sent q4])"
proof -
  have p: "JSON_parse e (trim (lit ''{}'')) = Inr (JObj [])"
    by (simp add: e_def scripted_env_simps empty_answer)
  show "preProcessJD e jd0 w0 = (Inr default_jd, [Sent q1])"
    unfolding e_def q1_def
    by (rule preProcessJD_empty_object [where response = "lit ''{}''"])
       (simp_all add: scripted_success answers_c7_def w0_def empty_answer scripted_env_simps)
  show "callOpenAIChat e (metadata_completion (sanitizeText (Some (JStr (take 6000 (lit ''<h1>Engineer</h1>''))))))
           ([Sent q1]) =
         (Inl (PlainObj \<lparr> name = lit ''OpenAIError'', message = lit ''Network Error'',
                          isRetryable = False, statusCode = None \<rparr>), [Sent q1, Sent q2])"
    unfolding e_def q2_def
    by (subst scripted_fatal [where st = None and m = "lit ''Network Error''"])
       (simp_all add: scripted_env_simps answers_c7_def w0_def isRetryableStatus_def
          handleNonRetryableError_def createRetryableError_def lit_def)
  show "callOpenAI e jd0 (JSON_stringify e (JObj [])) (JSON_stringify e (StructuredJD_json default_jd))
           ([Sent q1, Sent q2]) =
         (Inr \<lparr> matchScore = Fin 100, matchedSkills = JArr [], missingSkills = JArr [],
                suggestions = JArr [], sampleBullets = JArr [], analysisSummary = JStr [] \<rparr>,
          [Sent q1, Sent q2, Sent q3])"
    unfolding e_def q3_def
    by (subst callOpenAI_parsed [where response = "score_answer ''150''" and parsed = "score_json 150"])
       (simp_all add: scripted_success answers_c7_def w0_def score_answers score_answer_nonempty
          scripted_env_simps score_json_def js_or_def ToNumber_def)
  show "generateTailoredResume e default_jd (JObj []) ([Sent q1, Sent q2, Sent q3]) =
         (Inr empty_tailored, [Sent q1, Sent q2, Sent q3, Sent q4])"
    unfolding e_def q4_def
    by (rule generateTailoredResume_empty_object [where response = "lit ''{}''", simplified scripted_env_simps, THEN trans])
       (simp_all add: scripted_success answers_c7_def w0_def empty_answer scripted_env_simps)
qed


text \<open>
  C6. A failure of the JD extraction or of the match analysis ends \<open>analyze\<close> with an
  error whose message wraps the message of the failure. A failure of the tailored-resume
  generation does not: the result holds the fields of the match analysis, the structured
  JD, and the placeholder tailored resume, all of whose fields are empty. Nothing else
  makes \<open>analyze\<close> fail: when it fails, the JD extraction or the match analysis has.
\<close>

theorem analyze_partial_failure:
  "(preProcessJD e jd w = (Inl err, w1) \<longrightarrow>
      analyze e jd sr md w =
        (Inl (new_Error (lit ''Failed to analyze job description and resume: '' @ error_text err)),
         w1)) \<and>
   (preProcessJD e jd w = (Inr sJD, w1) \<and> metadata_step e md w1 = (pm, w2) \<and>
    callOpenAI e jd (JSON_stringify e sr) (JSON_stringify e (StructuredJD_json sJD)) w2
      = (Inl err, w3) \<longrightarrow>
      analyze e jd sr md w =
        (Inl (new_Error (lit ''Failed to analyze job description and resume: '' @ error_text err)),
         w3)) \<and>
   (preProcessJD e jd w = (Inr sJD, w1) \<and> metadata_step e md w1 = (pm, w2) \<and>
    callOpenAI e jd (JSON_stringify e sr) (JSON_stringify e (StructuredJD_json sJD)) w2
      = (Inr base, w3) \<and>
    generateTailoredResume e sJD sr w3 = (Inl err, w4) \<longrightarrow>
      analyze e jd sr md w =
        (Inr \<lparr> matchScore = matchScore base,
               matchedSkills = matchedSkills base,
               missingSkills = missingSkills base,
               suggestions = suggestions base,
               sampleBullets = sampleBullets base,
               analysisSummary = analysisSummary base,
               structuredJD = sJD,
               tailoredResume =
                 \<lparr> tailoredSummary = JStr [], tailoredSkills = JArr [],
                   tailoredExperience = JArr [], tailoredProjects = JArr [],
                   coverLetterHighlights = JArr [] \<rparr>,
               jobMetadata = pm \<rparr>, w4)) \<and>
   (analyze e jd sr md w = (Inl x, w') \<longrightarrow>
      (\<exists>err. preProcessJD e jd w = (Inl err, w')) \<or>
      (\<exists>sJD w1 pm w2 err.
         preProcessJD e jd w = (Inr sJD, w1) \<and> metadata_step e md w1 = (pm, w2) \<and>
         callOpenAI e jd (JSON_stringify e sr) (JSON_stringify e (StructuredJD_json sJD)) w2
           = (Inl err, w')))"
proof (intro conjI impI)
  assume "preProcessJD e jd w = (Inl err, w1)"
  then show "analyze e jd sr md w =
        (Inl (new_Error (lit ''Failed to analyze job description and resume: '' @ error_text err)),
         w1)"
    by (simp add: analyze_def catch_rethrow_def)
next
  assume "preProcessJD e jd w = (Inr sJD, w1) \<and> metadata_step e md w1 = (pm, w2) \<and>
    callOpenAI e jd (JSON_stringify e sr) (JSON_stringify e (StructuredJD_json sJD)) w2
      = (Inl err, w3)"
  then show "analyze e jd sr md w =
        (Inl (new_Error (lit ''Failed to analyze job description and resume: '' @ error_text err)),
         w3)"
    by (simp add: analyze_def Let_def catch_rethrow_def)
next
  assume "preProcessJD e jd w = (Inr sJD, w1) \<and> metadata_step e md w1 = (pm, w2) \<and>
    callOpenAI e jd (JSON_stringify e sr) (JSON_stringify e (StructuredJD_json sJD)) w2
      = (Inr base, w3) \<and>
    generateTailoredResume e sJD sr w3 = (Inl err, w4)"
  then show "analyze e jd sr md w =
        (Inr \<lparr> matchScore = matchScore base,
               matchedSkills = matchedSkills base,
               missingSkills = missingSkills base,
               suggestions = suggestions base,
               sampleBullets = sampleBullets base,
               analysisSummary = analysisSummary base,
               structuredJD = sJD,
               tailoredResume =
                 \<lparr> tailoredSummary = JStr [], tailoredSkills = JArr [],
                   tailoredExperience = JArr [], tailoredProjects = JArr [],
                   coverLetterHighlights = JArr [] \<rparr>,
               jobMetadata = pm \<rparr>, w4)"
    by (simp add: analyze_def Let_def empty_tailored_def)
next
  assume failed: "analyze e jd sr md w = (Inl x, w')"
  obtain r1 w1 where jd: "preProcessJD e jd w = (r1, w1)" by (cases "preProcessJD e jd w")
  show "(\<exists>err. preProcessJD e jd w = (Inl err, w')) \<or>
      (\<exists>sJD w1 pm w2 err.
         preProcessJD e jd w = (Inr sJD, w1) \<and> metadata_step e md w1 = (pm, w2) \<and>
         callOpenAI e jd (JSON_stringify e sr) (JSON_stringify e (StructuredJD_json sJD)) w2
           = (Inl err, w'))"
  proof (cases r1)
    case (Inl err)
    with jd failed show ?thesis by (simp add: analyze_def catch_rethrow_def)
  next
    case (Inr sJD)
    obtain pm w2 where ms: "metadata_step e md w1 = (pm, w2)" by (cases "metadata_step e md w1")
    obtain r3 w3 where m: "callOpenAI e jd (JSON_stringify e sr)
        (JSON_stringify e (StructuredJD_json sJD)) w2 = (r3, w3)"
      by (cases "callOpenAI e jd (JSON_stringify e sr) (JSON_stringify e (StructuredJD_json sJD)) w2")
    show ?thesis
    proof (cases r3)
      case (Inl err)
      with jd Inr ms m failed show ?thesis
        by (simp add: analyze_def Let_def catch_rethrow_def)
    next
      case base: (Inr base)
      with jd Inr ms m failed show ?thesis
        by (simp add: analyze_def Let_def split: prod.splits sum.splits)
    qed
  qed
qed

theorem analyze_partial_failure_witness:
  "(\<exists>w'. analyze (scripted_env answers_jd_fails) jd0 (JObj []) None w0 =
      (Inl (new_Error (lit ''Failed to analyze job description and resume: '' @
                       lit ''Failed to preprocess job description: '' @
                       lit ''Invalid OpenAI API key'')), w')) \<and>
   (\<exists>w'. analyze (scripted_env answers_match_fails) jd0 (JObj []) None w0 =
      (Inl (new_Error (lit ''Failed to analyze job description and resume: '' @
                       lit ''Failed to analyze job description and resume: '' @
                       lit ''Invalid request to OpenAI API'')), w')) \<and>
   (\<exists>w'. analyze (scripted_env answers_tailor_fails) jd0 (JObj []) None w0 =
      (Inr \<lparr> matchScore = Fin 100, matchedSkills = JArr [], missingSkills = JArr [],
             suggestions = JArr [], sampleBullets = JArr [], analysisSummary = JStr [],
             structuredJD = default_jd, tailoredResume = empty_tailored,
             jobMetadata = None \<rparr>, w'))"
proof -
  define q1 where "q1 = requestBody (lit ''sk-test'')
      (jd_completion (sanitizeText (Some (JStr (take 6000 jd0)))))"
  define q3 where "q3 = requestBody (lit ''sk-test'')
      (match_completion (sanitizeText (Some (JStr (take 3000 jd0)))) (lit ''<json>'') (lit ''<json>''))"
  define q4 where "q4 = requestBody (lit ''sk-test'') (tailor_completion (lit ''<json>'') (lit ''<json>''))"
  have md: "metadata_step e None w = (None, w)" for e w
    by (simp add: metadata_step_def)
  have jd_ok: "preProcessJD (scripted_env s) jd0 w0 = (Inr default_jd, [Sent q1])"
    if "s ! 0 = Responded (Some (lit ''{}''))" "0 < length s" for s
  proof -
    have "callOpenAIChat (scripted_env s) (jd_completion (sanitizeText (Some (JStr (take 6000 jd0))))) w0
            = (Inr (lit ''{}''), [Sent q1])"
      using scripted_success [where w = w0 and s = s and content = "lit ''{}''"] that
      by (simp add: w0_def empty_answer q1_def)
    then show ?thesis
      by (rule preProcessJD_empty_object) (simp add: empty_answer scripted_env_simps)
  qed
  \<comment> \<open>the JD extraction fails\<close>
  have "callOpenAIChat (scripted_env answers_jd_fails)
          (jd_completion (sanitizeText (Some (JStr (take 6000 jd0))))) w0 =
        (Inl (new_Error (lit ''Invalid OpenAI API key'')), [Sent q1])"
    unfolding q1_def
    by (subst scripted_fatal [where st = "Some 401" and m = "lit ''Unauthorized''"])
       (simp_all add: scripted_env_simps answers_jd_fails_def w0_def isRetryableStatus_def
          handleNonRetryableError_def createRetryableError_def Let_def)
  then have "preProcessJD (scripted_env answers_jd_fails) jd0 w0 =
        (Inl (new_Error (lit ''Failed to preprocess job description: '' @
                         lit ''Invalid OpenAI API key'')), [Sent q1])"
    by (simp add: service_failed(1))
  then have a: "\<exists>w'. analyze (scripted_env answers_jd_fails) jd0 (JObj []) None w0 =
      (Inl (new_Error (lit ''Failed to analyze job description and resume: '' @
                       lit ''Failed to preprocess job description: '' @
                       lit ''Invalid OpenAI API key'')), w')"
    using analyze_partial_failure [where e = "scripted_env answers_jd_fails" and jd = jd0
        and w = w0 and sr = "JObj []" and md = None, THEN conjunct1]
    by simp
  \<comment> \<open>the match analysis fails\<close>
  have "callOpenAIChat (scripted_env answers_match_fails)
          (match_completion (sanitizeText (Some (JStr (take 3000 jd0)))) (lit ''<json>'') (lit ''<json>''))
          ([Sent q1]) =
        (Inl (new_Error (lit ''Invalid request to OpenAI API'')), [Sent q1, Sent q3])"
    unfolding q3_def
    by (subst scripted_fatal [where st = "Some 400" and m = "lit ''Bad Request''"])
       (simp_all add: scripted_env_simps answers_match_fails_def w0_def isRetryableStatus_def
          handleNonRetryableError_def createRetryableError_def Let_def)
  then have "callOpenAI (scripted_env answers_match_fails) jd0 (lit ''<json>'') (lit ''<json>'')
          ([Sent q1]) =
        (Inl (new_Error (lit ''Failed to analyze job description and resume: '' @
                         lit ''Invalid request to OpenAI API'')), [Sent q1, Sent q3])"
    by (simp add: service_failed(2))
  then have b: "\<exists>w'. analyze (scripted_env answers_match_fails) jd0 (JObj []) None w0 =
      (Inl (new_Error (lit ''Failed to analyze job description and resume: '' @
                       lit ''Failed to analyze job description and resume: '' @
                       lit ''Invalid request to OpenAI API'')), w')"
    using analyze_partial_failure [where e = "scripted_env answers_match_fails" and jd = jd0
        and w = w0 and sr = "JObj []" and md = None and sJD = default_jd
        and ?w1.0 = "[Sent q1]" and ?w2.0 = "[Sent q1]" and pm = None,
        THEN conjunct2, THEN conjunct1]
      jd_ok [of answers_match_fails]
    by (simp add: md scripted_env_simps answers_match_fails_def)
  \<comment> \<open>the tailoring fails\<close>
  have m: "callOpenAI (scripted_env answers_tailor_fails) jd0 (lit ''<json>'') (lit ''<json>'')
          ([Sent q1]) =
        (Inr \<lparr> matchScore = Fin 100, matchedSkills = JArr [], missingSkills = JArr [],
               suggestions = JArr [], sampleBullets = JArr [], analysisSummary = JStr [] \<rparr>,
         [Sent q1, Sent q3])"
    unfolding q3_def
    by (subst callOpenAI_parsed [where response = "score_answer ''150''" and parsed = "score_json 150"])
       (simp_all add: scripted_success answers_tailor_fails_def w0_def score_answers
          score_answer_nonempty scripted_env_simps score_json_def js_or_def ToNumber_def)
  have "callOpenAIChat (scripted_env answers_tailor_fails)
          (tailor_completion (lit ''<json>'') (lit ''<json>'')) ([Sent q1, Sent q3]) =
        (Inl (PlainObj \<lparr> name = lit ''OpenAIError'', message = lit ''Empty response from OpenAI API'',
                         isRetryable = False, statusCode = None \<rparr>), [Sent q1, Sent q3, Sent q4])"
    unfolding q4_def
    by (simp add: callOpenAIChat_def scripted_env_simps key_nonempty MAX_RETRIES_def
          retry_loop_fatal [OF _ makeOpenAIRequest_empty [where x = None]]
          answers_tailor_fails_def w0_def new_Error_def isRetryableStatus_def
          handleNonRetryableError_def createRetryableError_def Let_def lit_def)
  then have t: "generateTailoredResume (scripted_env answers_tailor_fails) default_jd (JObj [])
          ([Sent q1, Sent q3]) =
        (Inl (new_Error (lit ''Failed to generate tailored resume: '' @ lit ''Unknown error'')),
         [Sent q1, Sent q3, Sent q4])"
    using service_failed(3) [where e = "scripted_env answers_tailor_fails" and sJD = default_jd
        and sr = "JObj []"]
    by (simp add: scripted_env_simps)
  have c: "\<exists>w'. analyze (scripted_env answers_tailor_fails) jd0 (JObj []) None w0 =
      (Inr \<lparr> matchScore = Fin 100, matchedSkills = JArr [], missingSkills = JArr [],
             suggestions = JArr [], sampleBullets = JArr [], analysisSummary = JStr [],
             structuredJD = default_jd, tailoredResume = empty_tailored,
             jobMetadata = None \<rparr>, w')"
    using analyze_partial_failure [where e = "scripted_env answers_tailor_fails" and jd = jd0
        and w = w0 and sr = "JObj []" and md = None and sJD = default_jd
        and ?w1.0 = "[Sent q1]" and ?w2.0 = "[Sent q1]" and pm = None
        and ?w3.0 = "[Sent q1, Sent q3]",
        THEN conjunct2, THEN conjunct2, THEN conjunct1]
      jd_ok [of answers_tailor_fails] m t
    by (simp add: md scripted_env_simps answers_tailor_fails_def empty_tailored_def)
  from a b c show ?thesis by blast
qed

text \<open>
  What \<open>analyze\<close> does when a non-blank metadata source is supplied and the metadata step
  fails (its completion call fails, or its answer cannot be parsed or lacks the data) while
  the other three steps succeed: \<open>jobMetadata\<close> of the result is the metadata record with
  every field empty.
\<close>

lemma metadata_failure_keeps_empty_metadata:
  assumes "html \<noteq> []" "trim html \<noteq> []"
    and "preProcessJD e jd w = (Inr sJD, w1)"
    and "callOpenAIChat e (metadata_completion (sanitizeText (Some (JStr (take 6000 html))))) w1
           = (r, w2)"
    and "r = Inl err \<or> (\<exists>response. r = Inr response \<and> metadata_body e response = Inl err)"
    and "callOpenAI e jd (JSON_stringify e sr) (JSON_stringify e (StructuredJD_json sJD)) w2
           = (Inr base, w3)"
    and "generateTailoredResume e sJD sr w3 = (Inr tailored, w4)"
  shows "analyze e jd sr (Some html) w =
           (Inr \<lparr> matchScore = matchScore base,
                  matchedSkills = matchedSkills base,
                  missingSkills = missingSkills base,
                  suggestions = suggestions base,
                  sampleBullets = sampleBullets base,
                  analysisSummary = analysisSummary base,
                  structuredJD = sJD,
                  tailoredResume = tailored,
                  jobMetadata =
                    Some \<lparr> companyLinkedInUrl = JStr [], companyLogoUrl = JStr [],
                           companyName = JStr [], jobTitle = JStr [], jobLocation = JStr [],
                           salary = JStr [], postedDate = JStr [], applicationDeadline = JStr [],
                           jobType = JStr [], remote = JStr [], benefits = JArr [],
                           additionalInfo = JObj [] \<rparr> \<rparr>, w4)"
  using assms(3,6,7) metadata_step_failed [OF assms(1,2,4,5)]
  by (simp add: analyze_def Let_def empty_metadata_def)


lemma metadata_failure_keeps_empty_metadata_example:
  "\<exists>w'. analyze (scripted_env answers_c7) jd0 (JObj []) (Some (lit ''<h1>Engineer</h1>'')) w0 =
     (Inr \<lparr> matchScore = Fin 100, matchedSkills = JArr [], missingSkills = JArr [],
            suggestions = JArr [], sampleBullets = JArr [], analysisSummary = JStr [],
            structuredJD = default_jd, tailoredResume = empty_tailored,
            jobMetadata = Some empty_metadata \<rparr>, w')"
  using metadata_failure_keeps_empty_metadata [OF html_sample run_c7(1,2) _ run_c7(3,4)]
  by (simp add: empty_metadata_def)

text \<open>
  \<open>parseJobMetadata\<close> never throws, so the \<open>catch\<close> that \<open>analyze\<close> puts around the
  metadata step never runs.
\<close>

lemma parseJobMetadata_never_throws: "\<exists>m. fst (parseJobMetadata e html w) = Inr m"
  by (simp add: parseJobMetadata_def Let_def split: prod.splits sum.splits)

lemma analyze_c7:
  "fst (analyze (scripted_env answers_c7) jd0 (JObj []) (Some (lit ''<h1>Engineer</h1>'')) w0) =
     Inr \<lparr> matchScore = Fin 100, matchedSkills = JArr [], missingSkills = JArr [],
           suggestions = JArr [], sampleBullets = JArr [], analysisSummary = JStr [],
           structuredJD = default_jd, tailoredResume = empty_tailored,
           jobMetadata = Some empty_metadata \<rparr>"
  using metadata_step_failed [OF html_sample run_c7(2)]
  by (simp add: analyze_def Let_def run_c7)

text \<open>
  C7. The claim does not hold on the code. \<open>analyze\<close> wraps the metadata step in a \<open>try\<close>
  whose \<open>catch\<close> continues without metadata, but \<open>parseJobMetadata\<close> has already caught
  the failure and returned the record with every field empty. At this input (a non-blank
  metadata source; the metadata request fails on the network, the three other requests
  are answered) the result of \<open>analyze\<close> holds that record as \<open>jobMetadata\<close>, where the
  claim has it undefined; \<open>matchScore\<close>, \<open>structuredJD\<close> and \<open>tailoredResume\<close> are
  populated, as the claim says.
\<close>

theorem failed_metadata_step_leaves_empty_metadata:
  "answers_c7 ! 1 = Threw None (lit ''Network Error'') \<and>
   fst (analyze (scripted_env answers_c7) jd0 (JObj []) (Some (lit ''<h1>Engineer</h1>'')) w0) =
     Inr \<lparr> matchScore = Fin 100, matchedSkills = JArr [], missingSkills = JArr [],
           suggestions = JArr [], sampleBullets = JArr [], analysisSummary = JStr [],
           structuredJD = default_jd, tailoredResume = empty_tailored,
           jobMetadata = Some empty_metadata \<rparr> \<and>
   Some empty_metadata \<noteq> (None :: JobMetaDataResponse option)"
  using analyze_c7 by (simp add: answers_c7_def)

section \<open>Properties of the handler that takes raw texts\<close>

lemma retry_loop_requests:
  "\<exists>n. requests (snd (retry_loop e k c attempt lastError w)) =
         requests w @ replicate n (requestBody k c)"
proof (induction e k c attempt lastError w rule: retry_loop.induct)
  case (1 e k c attempt lastError w)
  show ?case
  proof (cases "attempt < MAX_RETRIES")
    case False
    then have "requests (snd (retry_loop e k c attempt lastError w)) =
               requests w @ replicate 0 (requestBody k c)"
      by (simp add: retry_loop_exhausted)
    then show ?thesis by blast
  next
    case True
    obtain r w1 where m: "makeOpenAIRequest e k c w = (r, w1)"
      by (cases "makeOpenAIRequest e k c w")
    have w1: "w1 = w @ [Sent (requestBody k c)]"
      using makeOpenAIRequest_world [of e k c w] m by simp
    have one: "requests w1 = requests w @ replicate 1 (requestBody k c)"
      using w1 by simp
    show ?thesis
    proof (cases r)
      case (Inr s)
      with True m one show ?thesis by (metis retry_loop_success snd_conv)
    next
      case (Inl err)
      show ?thesis
      proof (cases "isRetryableStatus (exn_status err)")
        case False
        with True m Inl one show ?thesis by (metis retry_loop_fatal snd_conv)
      next
        case r: True
        let ?w2 = "if attempt < MAX_RETRIES - 1
                   then w1 @ [Slept (RETRY_DELAY_MS * 2 ^ attempt)] else w1"
        have ir: "isRetryable (createRetryableError err)"
          using r by (simp add: createRetryableError_def Let_def)
        from "1.IH" [OF True m [symmetric, unfolded Inl] refl refl _ refl, simplified ir]
        obtain n where "requests (snd (retry_loop e k c (attempt + 1)
                          (Some (createRetryableError err)) ?w2)) =
                        requests ?w2 @ replicate n (requestBody k c)"
          by auto
        moreover have "requests ?w2 = requests w @ [requestBody k c]"
          using w1 by simp
        ultimately have "requests (snd (retry_loop e k c attempt lastError w)) =
                         requests w @ replicate (Suc n) (requestBody k c)"
          using retry_loop_retry [OF True m [unfolded Inl] r, of lastError] by simp
        then show ?thesis by blast
      qed
    qed
  qed
qed

lemma callOpenAIChat_requests:
  "\<exists>n. requests (snd (callOpenAIChat e c w)) =
         requests w @ replicate n (requestBody (the (OPENAI_API_KEY e)) c)"
proof (cases "\<exists>k. OPENAI_API_KEY e = Some k \<and> k \<noteq> []")
  case True
  then show ?thesis
    using retry_loop_requests [of e "the (OPENAI_API_KEY e)" c 0 None w]
    by (auto simp: callOpenAIChat_def)
next
  case False
  then have "requests (snd (callOpenAIChat e c w)) =
             requests w @ replicate 0 (requestBody (the (OPENAI_API_KEY e)) c)"
    by (auto simp: callOpenAIChat_def split: option.splits)
  then show ?thesis by blast
qed

lemma service_world:
  "snd (preProcessJD e jd w) =
     snd (callOpenAIChat e (jd_completion (sanitizeText (Some (JStr (take 6000 jd))))) w)"
  "snd (callOpenAI e jd rj jj w) =
     snd (callOpenAIChat e (match_completion (sanitizeText (Some (JStr (take 3000 jd)))) jj rj) w)"
  "snd (generateTailoredResume e sJD sr w) =
     snd (callOpenAIChat e
            (tailor_completion (JSON_stringify_indent e (StructuredJD_json sJD))
               (JSON_stringify_indent e sr)) w)"
  by (simp_all add: preProcessJD_def callOpenAI_def generateTailoredResume_def Let_def
        split: prod.splits)

lemma body_user_requestBody [simp]: "body_user (requestBody k c) = user_content c"
  by (simp add: requestBody_def)

lemma callOpenAIChat_Inr_sends:
  assumes "callOpenAIChat e c w = (Inr s, w')"
  shows "length (requests w) < length (requests w')"
proof -
  from assms obtain k where "OPENAI_API_KEY e = Some k" "k \<noteq> []"
    by (auto simp: callOpenAIChat_def split: option.splits if_splits)
  with assms have "retry_loop e k c 0 None w = (Inr s, w')"
    by (simp add: callOpenAIChat_def)
  moreover have "length (requests w) < length (requests (snd (retry_loop e k c 0 None w)))"
    by (rule retry_loop_requests_grow) (simp add: MAX_RETRIES_def)
  ultimately show ?thesis by simp
qed

lemma analyze_requests:
  "\<exists>nj nm nt qj qm qt.
     requests (snd (analyze e jd sr None w)) =
       requests w @ replicate nj qj @ replicate nm qm @ replicate nt qt \<and>
     body_user qj = JD_extraction (sanitizeText (Some (JStr (take 6000 jd)))) \<and>
     (\<exists>x y. body_user qm = Match_analysis (sanitizeText (Some (JStr (take 3000 jd)))) x y) \<and>
     (\<exists>x y. body_user qt = Tailoring x y) \<and>
     (0 < nm \<longrightarrow> 0 < nj) \<and> (0 < nt \<longrightarrow> 0 < nm)"
proof -
  let ?k = "the (OPENAI_API_KEY e)"
  let ?qj = "requestBody ?k (jd_completion (sanitizeText (Some (JStr (take 6000 jd)))))"
  obtain r1 w1 where jd: "preProcessJD e jd w = (r1, w1)" by (cases "preProcessJD e jd w")
  obtain nj where nj: "requests w1 = requests w @ replicate nj ?qj"
    using callOpenAIChat_requests [of e _ w] service_world(1) [of e jd w] jd by auto
  have bj: "body_user ?qj = JD_extraction (sanitizeText (Some (JStr (take 6000 jd))))"
    by (simp add: jd_completion_def)
  show ?thesis
  proof (cases r1)
    case (Inl err)
    let ?qm = "requestBody ?k (match_completion (sanitizeText (Some (JStr (take 3000 jd)))) [] [])"
    let ?qt = "requestBody ?k (tailor_completion [] [])"
    have "requests (snd (analyze e jd sr None w)) =
          requests w @ replicate nj ?qj @ replicate 0 ?qm @ replicate 0 ?qt"
      using jd Inl nj by (simp add: analyze_def catch_rethrow_def)
    moreover have "\<exists>x y. body_user ?qm = Match_analysis (sanitizeText (Some (JStr (take 3000 jd)))) x y"
      by (simp add: match_completion_def)
    moreover have "\<exists>x y. body_user ?qt = Tailoring x y"
      by (simp add: tailor_completion_def)
    ultimately show ?thesis using bj by blast
  next
    case (Inr sJD)
    let ?rj = "JSON_stringify e sr"
    let ?jj = "JSON_stringify e (StructuredJD_json sJD)"
    let ?qm = "requestBody ?k (match_completion (sanitizeText (Some (JStr (take 3000 jd)))) ?jj ?rj)"
    let ?qt = "requestBody ?k (tailor_completion (JSON_stringify_indent e (StructuredJD_json sJD))
                 (JSON_stringify_indent e sr))"
    have "length (requests w) < length (requests w1)"
      using preProcessJD_Inr [OF jd [unfolded Inr]] callOpenAIChat_Inr_sends by blast
    with nj have pj: "0 < nj" by simp
    have bm: "\<exists>x y. body_user ?qm = Match_analysis (sanitizeText (Some (JStr (take 3000 jd)))) x y"
      by (simp add: match_completion_def)
    have bt: "\<exists>x y. body_user ?qt = Tailoring x y"
      by (simp add: tailor_completion_def)
    obtain r3 w3 where m: "callOpenAI e jd ?rj ?jj w1 = (r3, w3)"
      by (cases "callOpenAI e jd ?rj ?jj w1")
    obtain nm where nm: "requests w3 = requests w1 @ replicate nm ?qm"
      using callOpenAIChat_requests [of e _ w1] service_world(2) [of e jd ?rj ?jj w1] m by auto
    show ?thesis
    proof (cases r3)
      case (Inl err)
      have "requests (snd (analyze e jd sr None w)) =
            requests w @ replicate nj ?qj @ replicate nm ?qm @ replicate 0 ?qt"
        using jd \<open>r1 = Inr sJD\<close> m Inl nj nm
        by (simp add: analyze_def Let_def metadata_step_def catch_rethrow_def)
      with bj bm bt pj show ?thesis by blast
    next
      case (Inr base)
      have "length (requests w1) < length (requests w3)"
        using callOpenAI_Inr [OF m [unfolded Inr]] callOpenAIChat_Inr_sends by blast
      with nm have pm: "0 < nm" by simp
      obtain r4 w4 where t: "generateTailoredResume e sJD sr w3 = (r4, w4)"
        by (cases "generateTailoredResume e sJD sr w3")
      obtain nt where nt: "requests w4 = requests w3 @ replicate nt ?qt"
        using callOpenAIChat_requests [of e _ w3] service_world(3) [of e sJD sr w3] t by auto
      have "requests (snd (analyze e jd sr None w)) =
            requests w @ replicate nj ?qj @ replicate nm ?qm @ replicate nt ?qt"
        using jd \<open>r1 = Inr sJD\<close> m Inr t nj nm nt
        by (cases r4) (simp_all add: analyze_def Let_def metadata_step_def)
      with bj bm bt pj pm show ?thesis by blast
    qed
  qed
qed

lemma jd0_clean: "sanitizeText (Some (JStr jd0)) = jd0" "take 6000 jd0 = jd0" "take 3000 jd0 = jd0"
  "jd0 \<noteq> []" "sample_text \<noteq> []"
  by code_simp+

lemma scripted_jd_ok:
  assumes "s ! 0 = Responded (Some (lit ''{}''))" "0 < length s"
  shows "preProcessJD (scripted_env s) jd0 w0 =
           (Inr default_jd,
            [Sent (requestBody (lit ''sk-test'')
                               (jd_completion (sanitizeText (Some (JStr (take 6000 jd0))))))])"
proof -
  have "callOpenAIChat (scripted_env s) (jd_completion (sanitizeText (Some (JStr (take 6000 jd0))))) w0
          = (Inr (lit ''{}''),
             [Sent (requestBody (lit ''sk-test'')
                                (jd_completion (sanitizeText (Some (JStr (take 6000 jd0))))))])"
    using scripted_success [where w = w0 and s = s and content = "lit ''{}''"] assms
    by (simp add: w0_def empty_answer)
  then show ?thesis
    by (rule preProcessJD_empty_object) (simp add: empty_answer scripted_env_simps)
qed

lemma run_raw:
  defines "e \<equiv> scripted_env answers_all_empty"
  defines "q1 \<equiv> requestBody (lit ''sk-test'') (jd_completion jd0)"
  defines "q2 \<equiv> requestBody (lit ''sk-test'') (match_completion jd0 (lit ''<json>'') (lit ''<json>''))"
  defines "q3 \<equiv> requestBody (lit ''sk-test'') (tailor_completion (lit ''<json>'') (lit ''<json>''))"
  shows "analyze e jd0 (JStr (lit ''Mail [email] ok'')) None w0 =
           (Inr \<lparr> matchScore = Fin 0, matchedSkills = JArr [], missingSkills = JArr [],
                  suggestions = JArr [], sampleBullets = JArr [], analysisSummary = JStr [],
                  structuredJD = default_jd, tailoredResume = empty_tailored,
                  jobMetadata = None \<rparr>, [Sent q1, Sent q2, Sent q3])"
proof -
  have 1: "preProcessJD e jd0 w0 = (Inr default_jd, [Sent q1])"
    using scripted_jd_ok [of answers_all_empty]
    by (simp add: e_def q1_def answers_all_empty_def jd0_clean)
  have 2: "callOpenAI e jd0 (lit ''<json>'') (lit ''<json>'') ([Sent q1]) =
         (Inr \<lparr> matchScore = Fin 0, matchedSkills = JArr [], missingSkills = JArr [],
                suggestions = JArr [], sampleBullets = JArr [], analysisSummary = JStr [] \<rparr>,
          [Sent q1, Sent q2])"
    unfolding e_def q2_def
    by (subst callOpenAI_parsed [where response = "lit ''{}''" and parsed = "JObj []"])
       (simp_all add: scripted_success [where content = "lit ''{}''"] answers_all_empty_def w0_def
          empty_answer scripted_env_simps js_or_def ToNumber_def jd0_clean)
  have 3: "generateTailoredResume e default_jd (JStr (lit ''Mail [email] ok''))
             ([Sent q1, Sent q2]) =
         (Inr empty_tailored, [Sent q1, Sent q2, Sent q3])"
    unfolding e_def q3_def
    by (rule generateTailoredResume_empty_object [where response = "lit ''{}''",
            simplified scripted_env_simps, THEN trans])
       (simp_all add: scripted_success [where content = "lit ''{}''"] answers_all_empty_def w0_def
          empty_answer scripted_env_simps)
  show ?thesis
    using 1 2 3
    by (simp add: analyze_def Let_def metadata_step_def e_def scripted_env_simps)
qed

text \<open>
  C8 (amended). Given a job description and a resume that are non-empty strings, the
  handler passes both sanitized texts to \<open>analyze\<close>, the resume text in the place of the
  structured resume and with no metadata source. The requests it sends are therefore, in
  this order, those of the JD extraction, then those of the match analysis, then those of
  the tailoring (a later task is only started after the earlier one has sent a request);
  it sends no request for resume extraction or for metadata extraction.
\<close>

theorem analyzeHandler_runs_orchestrator:
  assumes "jd = Some (JStr j)" "j \<noteq> []" "resume = Some (JStr r)" "r \<noteq> []"
  shows "analyzeHandler e jd resume w =
           (case analyze e (sanitizeText jd) (JStr (sanitizeText resume)) None w of
              (Inl error, w') \<Rightarrow> (Inl error, w')
            | (Inr analysisResult, w') \<Rightarrow> (Inr (Ok_json analysisResult), w')) \<and>
         (\<exists>nj nm nt qj qm qt.
            requests (snd (analyzeHandler e jd resume w)) =
              requests w @ replicate nj qj @ replicate nm qm @ replicate nt qt \<and>
            body_user qj = JD_extraction (sanitizeText (Some (JStr (take 6000 (sanitizeText jd))))) \<and>
            (\<exists>x y. body_user qm =
                     Match_analysis (sanitizeText (Some (JStr (take 3000 (sanitizeText jd))))) x y) \<and>
            (\<exists>x y. body_user qt = Tailoring x y) \<and>
            (0 < nm \<longrightarrow> 0 < nj) \<and> (0 < nt \<longrightarrow> 0 < nm))"
proof -
  let ?run = "analyze e (sanitizeText jd) (JStr (sanitizeText resume)) None w"
  have eq: "analyzeHandler e jd resume w =
           (case ?run of
              (Inl error, w') \<Rightarrow> (Inl error, w')
            | (Inr analysisResult, w') \<Rightarrow> (Inr (Ok_json analysisResult), w'))"
    using assms by (simp add: analyzeHandler_def Let_def)
  then have "snd (analyzeHandler e jd resume w) = snd ?run"
    by (simp split: prod.splits sum.splits)
  with eq analyze_requests [of e "sanitizeText jd" "JStr (sanitizeText resume)" w]
  show ?thesis by simp
qed

theorem analyzeHandler_runs_orchestrator_witness:
  "analyzeHandler (scripted_env answers_all_empty) (Some (JStr jd0)) (Some (JStr sample_text)) w0 =
     (Inr (Ok_json
        \<lparr> matchScore = Fin 0, matchedSkills = JArr [], missingSkills = JArr [],
          suggestions = JArr [], sampleBullets = JArr [], analysisSummary = JStr [],
          structuredJD = default_jd, tailoredResume = empty_tailored, jobMetadata = None \<rparr>),
      [Sent (requestBody (lit ''sk-test'') (jd_completion jd0)),
            Sent (requestBody (lit ''sk-test'') (match_completion jd0 (lit ''<json>'') (lit ''<json>''))),
            Sent (requestBody (lit ''sk-test'') (tailor_completion (lit ''<json>'') (lit ''<json>'')))])"
  using analyzeHandler_runs_orchestrator [where e = "scripted_env answers_all_empty"
      and jd = "Some (JStr jd0)" and j = jd0 and resume = "Some (JStr sample_text)"
      and r = sample_text and w = w0]
  by (simp add: jd0_clean sample_sanitized run_raw)

text \<open>
  The claim as stated fails: when every request is answered, the handler sends a JD
  extraction request and a tailoring request beside the match analysis request.
\<close>

theorem raw_text_handler_extracts_and_tailors:
  "map body_user
     (requests (snd (analyzeHandler (scripted_env answers_all_empty)
                       (Some (JStr jd0)) (Some (JStr sample_text)) w0))) =
   [JD_extraction jd0,
    Match_analysis jd0 (lit ''<json>'') (lit ''<json>''),
    Tailoring (lit ''<json>'') (lit ''<json>'')]"
  by (simp add: analyzeHandler_def Let_def jd0_clean sample_sanitized run_raw
        jd_completion_def match_completion_def tailor_completion_def)


end
